theory Spec2Isabelle
  imports Main
begin

section \<open>Python values the module handles\<close>

text \<open>
  Exceptions are values.  The first five classes are the ones the Python of
  \<^verbatim>\<open>clip_encoder.py\<close> itself can raise (an explicit \<^verbatim>\<open>raise\<close>, an index, an
  attribute read, a floor division, a tensor constructor); \<open>OtherError\<close> is an
  exception of any other class.  The pretrained-model library may raise an
  exception of any class, these five included, and the module has no
  \<^verbatim>\<open>try\<close>: what the library raises leaves the module as it is.
\<close>

datatype error =
    ValueError string
  | IndexError string
  | AttributeError string
  | ZeroDivisionError
  | RuntimeError string
  | OtherError string

datatype dtype = Float16 | BFloat16 | Float32 | Float64 | Int64

datatype device = CPU | CUDA nat

text \<open>
  A tensor is its shape, its dtype, its device and its elements in row-major
  order.  The element type is a parameter: the module never computes with the
  numbers, it moves, slices and converts tensors.
\<close>

record 'a tensor =
  t_shape :: "nat list"
  t_dtype :: dtype
  t_device :: device
  t_elems :: "'a list"

text \<open>The process state outside the tower: what was printed, and the library's own state.\<close>

record 'x world =
  stdout :: "string list"
  ext :: 'x

definition print :: "string \<Rightarrow> 'x world \<Rightarrow> 'x world" where
  "print s w = w\<lparr>stdout := stdout w @ [s]\<rparr>"

text \<open>The argument of \<^verbatim>\<open>forward\<close>: \<^verbatim>\<open>type(images) is list\<close> or a batched tensor.\<close>

datatype 'a images = ImageList "'a tensor list" | ImageBatch "'a tensor"

text \<open>What \<^verbatim>\<open>forward\<close> may hand back: Python is untyped, so the shapes are constructors.\<close>

datatype 'a pyval =
    is_PyTensor: PyTensor "'a tensor"
  | is_PyList: PyList "'a tensor list"
  | is_PyTuple: PyTuple "'a pyval list"

section \<open>Python and torch primitives\<close>

text \<open>\<^verbatim>\<open>xs[i]\<close> on a list or tuple: negative indices count from the end, out of range raises.\<close>

definition py_getitem :: "'b list \<Rightarrow> int \<Rightarrow> error + 'b" where
  "py_getitem xs i =
     (if 0 \<le> i \<and> i < int (length xs) then Inr (xs ! nat i)
      else if i < 0 \<and> - int (length xs) \<le> i then Inr (xs ! nat (int (length xs) + i))
      else Inl (IndexError ''tuple index out of range''))"

text \<open>\<^verbatim>\<open>a // b\<close> on Python integers: floor division, raising on a zero divisor.\<close>

definition py_floordiv :: "int \<Rightarrow> int \<Rightarrow> error + int" where
  "py_floordiv a b = (if b = 0 then Inl ZeroDivisionError else Inr (a div b))"

text \<open>
  \<^verbatim>\<open>t.to(device=d, dtype=k)\<close> and \<^verbatim>\<open>t.to(k)\<close>: the conversion of one element to
  a dtype is torch's, taken as the parameter \<open>cast\<close>.
\<close>

definition to_device_dtype ::
  "(dtype \<Rightarrow> 'a \<Rightarrow> 'a) \<Rightarrow> device \<Rightarrow> dtype \<Rightarrow> 'a tensor \<Rightarrow> 'a tensor" where
  "to_device_dtype cast d k t =
     t\<lparr>t_dtype := k, t_device := d, t_elems := map (cast k) (t_elems t)\<rparr>"

definition to_dtype :: "(dtype \<Rightarrow> 'a \<Rightarrow> 'a) \<Rightarrow> dtype \<Rightarrow> 'a tensor \<Rightarrow> 'a tensor" where
  "to_dtype cast k t = t\<lparr>t_dtype := k, t_elems := map (cast k) (t_elems t)\<rparr>"

definition to_device :: "device \<Rightarrow> 'a tensor \<Rightarrow> 'a tensor" where
  "to_device d t = t\<lparr>t_device := d\<rparr>"

text \<open>\<^verbatim>\<open>t.unsqueeze(0)\<close>: a new leading dimension of size one.\<close>

definition unsqueeze0 :: "'a tensor \<Rightarrow> 'a tensor" where
  "unsqueeze0 t = t\<lparr>t_shape := 1 # t_shape t\<rparr>"

text \<open>
  \<^verbatim>\<open>t[:, 1:]\<close>: every index of dimension 0, dimension 1 from index 1 on.  A tensor
  with fewer than two dimensions has too many indices.  \<open>rows\<close> cuts the elements
  into the \<open>b\<close> blocks of dimension 0; in each block the first \<open>r\<close> elements are the
  entry at index 0 of dimension 1.
\<close>

definition rows :: "nat \<Rightarrow> nat \<Rightarrow> 'a list \<Rightarrow> 'a list list" where
  "rows b n xs = map (\<lambda>i. take n (drop (i * n) xs)) [0..<b]"

definition slice_all_from1 :: "'a tensor \<Rightarrow> error + 'a tensor" where
  "slice_all_from1 t =
     (case t_shape t of
        b # s # rest \<Rightarrow>
          (let r = prod_list rest
           in Inr (t\<lparr>t_shape := b # (s - 1) # rest,
                     t_elems := concat (map (drop r) (rows b (s * r) (t_elems t)))\<rparr>))
      | _ \<Rightarrow> Inl (IndexError ''too many indices for tensor''))"

text \<open>\<^verbatim>\<open>torch.zeros(1, n, device=d, dtype=k)\<close>: a negative size is refused.\<close>

definition zeros :: "int \<Rightarrow> device \<Rightarrow> dtype \<Rightarrow> error + ('a::zero) tensor" where
  "zeros n d k =
     (if n < 0 then Inl (RuntimeError ''Trying to create tensor with negative dimension'')
      else Inr \<lparr>t_shape = [1, nat n], t_dtype = k, t_device = d,
                t_elems = replicate (nat n) 0\<rparr>)"

section \<open>The pretrained-model library, as the module uses it\<close>

text \<open>The fields of a model configuration that the accessors read.\<close>

record config =
  hidden_size :: int
  image_size :: int
  patch_size :: int

text \<open>
  A loaded CLIP vision model: its dtype, device and config, whether its parameters
  track gradients, and its call with \<^verbatim>\<open>output_hidden_states=True\<close>, which gives
  the tuple of hidden states or raises.
\<close>

record ('a, 'x) clip_model =
  cm_dtype :: dtype
  cm_device :: device
  cm_config :: config
  cm_requires_grad :: bool
  cm_call :: "'a tensor \<Rightarrow> 'x world \<Rightarrow> (error + 'a tensor list) \<times> 'x world"

text \<open>The keyword arguments \<^verbatim>\<open>forward\<close> gives to \<^verbatim>\<open>generate\<close>.\<close>

record 'a generate_args =
  input_ids :: "int tensor"
  pixel_values :: "'a images"
  max_new_tokens :: int
  do_sample :: bool
  num_beams :: int

text \<open>
  The config of the model that \<^verbatim>\<open>AutoModelForCausalLM\<close> loads is an object of
  the class the checkpoint names (\<^verbatim>\<open>trust_remote_code=True\<close>); nothing in the
  module fixes which attributes it has.  It is modelled as its attribute
  dictionary, and reading an attribute that is not there raises.
\<close>

type_synonym auto_config = "string \<rightharpoonup> int"

text \<open>
  A loaded Florence model: \<^verbatim>\<open>generate\<close> gives the triple (generated ids, image
  feature, encoder last hidden state) or raises.
\<close>

record ('a, 'x) florence_model =
  fm_dtype :: dtype
  fm_device :: device
  fm_config :: auto_config
  fm_requires_grad :: bool
  fm_generate :: "'a generate_args \<Rightarrow> 'x world \<Rightarrow>
                    (error + int tensor \<times> 'a tensor \<times> 'a tensor) \<times> 'x world"

text \<open>
  The library entry points: the \<^verbatim>\<open>from_pretrained\<close> loaders (each may raise and
  may change the library's state) and the element conversion of \<^verbatim>\<open>Tensor.to\<close>.
\<close>

record ('a, 'p, 'x) library =
  cast :: "dtype \<Rightarrow> 'a \<Rightarrow> 'a"
  CLIPVisionConfig_from_pretrained :: "string \<Rightarrow> 'x world \<Rightarrow> (error + config) \<times> 'x world"
  CLIPImageProcessor_from_pretrained :: "string \<Rightarrow> 'x world \<Rightarrow> (error + 'p) \<times> 'x world"
  CLIPVisionModel_from_pretrained ::
    "string \<Rightarrow> string option \<Rightarrow> 'x world \<Rightarrow> (error + ('a, 'x) clip_model) \<times> 'x world"
  AutoProcessor_from_pretrained :: "string \<Rightarrow> 'x world \<Rightarrow> (error + 'p) \<times> 'x world"
  AutoModelForCausalLM_from_pretrained ::
    "string \<Rightarrow> 'x world \<Rightarrow> (error + ('a, 'x) florence_model) \<times> 'x world"

text \<open>The \<^verbatim>\<open>args\<close> object: one required field, two read with \<^verbatim>\<open>getattr\<close> and a default.\<close>

record args =
  mm_vision_select_layer :: int
  mm_vision_select_feature :: "string option"
  unfreeze_mm_vision_tower :: "bool option"

definition getattr_default :: "'b option \<Rightarrow> 'b \<Rightarrow> 'b" where
  "getattr_default v d = (case v of None \<Rightarrow> d | Some x \<Rightarrow> x)"

section \<open>The towers' attributes\<close>

text \<open>
  Both classes assign \<^verbatim>\<open>is_loaded\<close>, \<^verbatim>\<open>vision_tower_name\<close>,
  \<^verbatim>\<open>image_processor\<close> and \<^verbatim>\<open>vision_tower\<close>, and both read \<^verbatim>\<open>cfg_only\<close>;
  they differ in the model they wrap (\<open>'m\<close>) and in the class of its config
  (\<open>'c\<close>).  \<^verbatim>\<open>image_processor\<close>,
  \<^verbatim>\<open>vision_tower\<close> and \<^verbatim>\<open>cfg_only\<close> are each assigned on one path only:
  \<open>None\<close> is an attribute that was never assigned, whose read raises
  \<^verbatim>\<open>AttributeError\<close>.
\<close>

record ('m, 'p, 'c) VisionTower =
  is_loaded :: bool
  vision_tower_name :: string
  image_processor :: "'p option"
  vision_tower :: "'m option"
  cfg_only :: "'c option"

text \<open>\<^verbatim>\<open>CLIPVisionTower\<close> has two attributes more.\<close>

record ('m, 'p, 'c) CLIPVisionTower_attrs = "('m, 'p, 'c) VisionTower" +
  select_layer :: int
  select_feature :: string

type_synonym ('a, 'p, 'x) CLIPVisionTower =
  "(('a, 'x) clip_model, 'p, config) CLIPVisionTower_attrs"

type_synonym ('a, 'p, 'x) FlorenceVisionTower =
  "(('a, 'x) florence_model, 'p, auto_config) VisionTower"

definition already_loaded_notice :: "string \<Rightarrow> string" where
  "already_loaded_notice name = name @ '' is already loaded, `load_model` called again, skipping.''"

definition no_attribute :: "string \<Rightarrow> error" where
  "no_attribute a = AttributeError (''object has no attribute '' @ a)"

text \<open>\<^verbatim>\<open>c.a\<close> on a config of \<^verbatim>\<open>AutoModelForCausalLM\<close>.\<close>

definition getattr :: "auto_config \<Rightarrow> string \<Rightarrow> error + int" where
  "getattr c a = (case c a of None \<Rightarrow> Inl (no_attribute a) | Some v \<Rightarrow> Inr v)"

section \<open>CLIPVisionTower\<close>

text \<open>\<^verbatim>\<open>load_model\<close> mutates the tower, so it returns the tower also when it raises.\<close>

definition CLIPVisionTower_load_model ::
  "('a, 'p, 'x) library \<Rightarrow> string option \<Rightarrow> ('a, 'p, 'x) CLIPVisionTower \<Rightarrow> 'x world \<Rightarrow>
     (error + unit) \<times> ('a, 'p, 'x) CLIPVisionTower \<times> 'x world" where
  "CLIPVisionTower_load_model lib device_map self w =
     (if is_loaded self
      then (Inr (), self, print (already_loaded_notice (vision_tower_name self)) w)
      else
        (case CLIPImageProcessor_from_pretrained lib (vision_tower_name self) w of
           (Inl e, w1) \<Rightarrow> (Inl e, self, w1)
         | (Inr p, w1) \<Rightarrow>
             (let self1 = self\<lparr>image_processor := Some p\<rparr>
              in case CLIPVisionModel_from_pretrained lib (vision_tower_name self1) device_map w1 of
                   (Inl e, w2) \<Rightarrow> (Inl e, self1, w2)
                 | (Inr m, w2) \<Rightarrow>
                     (let self2 = self1\<lparr>vision_tower := Some (m\<lparr>cm_requires_grad := False\<rparr>)\<rparr>
                      in (Inr (), self2\<lparr>is_loaded := True\<rparr>, w2)))))"

text \<open>The constructor: a raise leaves no tower behind.\<close>

definition constructed ::
  "(error + unit) \<times> 't \<times> 'x world \<Rightarrow> (error + 't) \<times> 'x world" where
  "constructed r = (case r of (Inl e, self, w) \<Rightarrow> (Inl e, w) | (Inr u, self, w) \<Rightarrow> (Inr self, w))"

definition CLIPVisionTower_init ::
  "('a, 'p, 'x) library \<Rightarrow> string \<Rightarrow> args \<Rightarrow> bool \<Rightarrow> 'x world \<Rightarrow>
     (error + ('a, 'p, 'x) CLIPVisionTower) \<times> 'x world" where
  "CLIPVisionTower_init lib vt a delay_load w =
     (let self = \<lparr>is_loaded = False, vision_tower_name = vt,
                   image_processor = None, vision_tower = None, cfg_only = None,
                   select_layer = mm_vision_select_layer a,
                   select_feature = getattr_default (mm_vision_select_feature a) ''patch''\<rparr>
      in if \<not> delay_load then constructed (CLIPVisionTower_load_model lib None self w)
         else if getattr_default (unfreeze_mm_vision_tower a) False
         then constructed (CLIPVisionTower_load_model lib None self w)
         else (case CLIPVisionConfig_from_pretrained lib (vision_tower_name self) w of
                 (Inl e, w1) \<Rightarrow> (Inl e, w1)
               | (Inr c, w1) \<Rightarrow> (Inr (self\<lparr>cfg_only := Some c\<rparr>), w1)))"

definition CLIPVisionTower_feature_select ::
  "('a, 'p, 'x) CLIPVisionTower \<Rightarrow> 'a tensor list \<Rightarrow> error + 'a tensor" where
  "CLIPVisionTower_feature_select self hidden_states =
     (case py_getitem hidden_states (select_layer self) of
        Inl e \<Rightarrow> Inl e
      | Inr image_features \<Rightarrow>
          if select_feature self = ''patch'' then slice_all_from1 image_features
          else if select_feature self = ''cls_patch'' then Inr image_features
          else Inl (ValueError (''Unexpected select feature: '' @ select_feature self)))"

definition CLIPVisionTower_dtype :: "('a, 'p, 'x) CLIPVisionTower \<Rightarrow> error + dtype" where
  "CLIPVisionTower_dtype self =
     (case vision_tower self of None \<Rightarrow> Inl (no_attribute ''vision_tower'')
      | Some m \<Rightarrow> Inr (cm_dtype m))"

definition CLIPVisionTower_device :: "('a, 'p, 'x) CLIPVisionTower \<Rightarrow> error + device" where
  "CLIPVisionTower_device self =
     (case vision_tower self of None \<Rightarrow> Inl (no_attribute ''vision_tower'')
      | Some m \<Rightarrow> Inr (cm_device m))"

text \<open>
  One image through the tower: the model is looked up, the image is moved to the
  tower's device and dtype, the model runs, the feature is selected and converted
  to the dtype the image came with.  \<open>batch\<close> is the \<^verbatim>\<open>unsqueeze(0)\<close> of the list
  branch.
\<close>

definition CLIPVisionTower_forward_one ::
  "('a, 'p, 'x) library \<Rightarrow> ('a, 'p, 'x) CLIPVisionTower \<Rightarrow> bool \<Rightarrow> 'a tensor \<Rightarrow> 'x world \<Rightarrow>
     (error + 'a tensor) \<times> 'x world" where
  "CLIPVisionTower_forward_one lib self batch img w =
     (case vision_tower self of
        None \<Rightarrow> (Inl (no_attribute ''vision_tower''), w)
      | Some m \<Rightarrow>
          (case CLIPVisionTower_device self of
             Inl e \<Rightarrow> (Inl e, w)
           | Inr d \<Rightarrow>
               (case CLIPVisionTower_dtype self of
                  Inl e \<Rightarrow> (Inl e, w)
                | Inr k \<Rightarrow>
                    (let x = to_device_dtype (cast lib) d k img;
                         x1 = (if batch then unsqueeze0 x else x)
                     in case cm_call m x1 w of
                          (Inl e, w1) \<Rightarrow> (Inl e, w1)
                        | (Inr hidden_states, w1) \<Rightarrow>
                            (case CLIPVisionTower_feature_select self hidden_states of
                               Inl e \<Rightarrow> (Inl e, w1)
                             | Inr f \<Rightarrow> (Inr (to_dtype (cast lib) (t_dtype img) f), w1))))))"

text \<open>The \<^verbatim>\<open>for image in images\<close> loop, with the list built so far.\<close>

fun CLIPVisionTower_forward_loop ::
  "('a, 'p, 'x) library \<Rightarrow> ('a, 'p, 'x) CLIPVisionTower \<Rightarrow> 'a tensor list \<Rightarrow> 'a tensor list \<Rightarrow>
     'x world \<Rightarrow> (error + 'a tensor list) \<times> 'x world" where
  "CLIPVisionTower_forward_loop lib self [] image_features w = (Inr image_features, w)"
| "CLIPVisionTower_forward_loop lib self (img # rest) image_features w =
     (case CLIPVisionTower_forward_one lib self True img w of
        (Inl e, w1) \<Rightarrow> (Inl e, w1)
      | (Inr image_feature, w1) \<Rightarrow>
          CLIPVisionTower_forward_loop lib self rest (image_features @ [image_feature]) w1)"

definition CLIPVisionTower_forward ::
  "('a, 'p, 'x) library \<Rightarrow> ('a, 'p, 'x) CLIPVisionTower \<Rightarrow> 'a images \<Rightarrow> 'x world \<Rightarrow>
     (error + 'a pyval) \<times> 'x world" where
  "CLIPVisionTower_forward lib self images w =
     (case images of
        ImageList imgs \<Rightarrow>
          (case CLIPVisionTower_forward_loop lib self imgs [] w of
             (Inl e, w1) \<Rightarrow> (Inl e, w1)
           | (Inr image_features, w1) \<Rightarrow>
               (Inr (PyTuple [PyList image_features, PyList image_features]), w1))
      | ImageBatch t \<Rightarrow>
          (case CLIPVisionTower_forward_one lib self False t w of
             (Inl e, w1) \<Rightarrow> (Inl e, w1)
           | (Inr image_features, w1) \<Rightarrow>
               (Inr (PyTuple [PyTensor image_features, PyTensor image_features]), w1)))"

definition CLIPVisionTower_config :: "('a, 'p, 'x) CLIPVisionTower \<Rightarrow> error + config" where
  "CLIPVisionTower_config self =
     (if is_loaded self
      then (case vision_tower self of None \<Rightarrow> Inl (no_attribute ''vision_tower'')
            | Some m \<Rightarrow> Inr (cm_config m))
      else (case cfg_only self of None \<Rightarrow> Inl (no_attribute ''cfg_only'')
            | Some c \<Rightarrow> Inr c))"

definition CLIPVisionTower_hidden_size :: "('a, 'p, 'x) CLIPVisionTower \<Rightarrow> error + int" where
  "CLIPVisionTower_hidden_size self =
     (case CLIPVisionTower_config self of Inl e \<Rightarrow> Inl e | Inr c \<Rightarrow> Inr (hidden_size c))"

definition CLIPVisionTower_num_patches_per_side ::
  "('a, 'p, 'x) CLIPVisionTower \<Rightarrow> error + int" where
  "CLIPVisionTower_num_patches_per_side self =
     (case CLIPVisionTower_config self of
        Inl e \<Rightarrow> Inl e
      | Inr c \<Rightarrow>
          (case CLIPVisionTower_config self of
             Inl e \<Rightarrow> Inl e
           | Inr c1 \<Rightarrow> py_floordiv (image_size c) (patch_size c1)))"

definition CLIPVisionTower_num_patches :: "('a, 'p, 'x) CLIPVisionTower \<Rightarrow> error + int" where
  "CLIPVisionTower_num_patches self =
     (case CLIPVisionTower_config self of
        Inl e \<Rightarrow> Inl e
      | Inr c \<Rightarrow>
          (case CLIPVisionTower_config self of
             Inl e \<Rightarrow> Inl e
           | Inr c1 \<Rightarrow>
               (case py_floordiv (image_size c) (patch_size c1) of
                  Inl e \<Rightarrow> Inl e
                | Inr n \<Rightarrow> Inr (n ^ 2))))"

definition CLIPVisionTower_dummy_feature ::
  "('a::zero, 'p, 'x) CLIPVisionTower \<Rightarrow> error + 'a tensor" where
  "CLIPVisionTower_dummy_feature self =
     (case CLIPVisionTower_hidden_size self of
        Inl e \<Rightarrow> Inl e
      | Inr n \<Rightarrow>
          (case CLIPVisionTower_device self of
             Inl e \<Rightarrow> Inl e
           | Inr d \<Rightarrow>
               (case CLIPVisionTower_dtype self of
                  Inl e \<Rightarrow> Inl e
                | Inr k \<Rightarrow> zeros n d k)))"

section \<open>FlorenceVisionTower\<close>

text \<open>
  \<^verbatim>\<open>load_model\<close> takes \<^verbatim>\<open>device_map\<close> and does not use it; the loaded model is
  converted to \<^verbatim>\<open>bfloat16\<close> before it is stored.
\<close>

definition FlorenceVisionTower_load_model ::
  "('a, 'p, 'x) library \<Rightarrow> string option \<Rightarrow> ('a, 'p, 'x) FlorenceVisionTower \<Rightarrow> 'x world \<Rightarrow>
     (error + unit) \<times> ('a, 'p, 'x) FlorenceVisionTower \<times> 'x world" where
  "FlorenceVisionTower_load_model lib device_map self w =
     (if is_loaded self
      then (Inr (), self, print (already_loaded_notice (vision_tower_name self)) w)
      else
        (case AutoProcessor_from_pretrained lib (vision_tower_name self) w of
           (Inl e, w1) \<Rightarrow> (Inl e, self, w1)
         | (Inr p, w1) \<Rightarrow>
             (let self1 = self\<lparr>image_processor := Some p\<rparr>
              in case AutoModelForCausalLM_from_pretrained lib (vision_tower_name self1) w1 of
                   (Inl e, w2) \<Rightarrow> (Inl e, self1, w2)
                 | (Inr m, w2) \<Rightarrow>
                     (let self2 = self1\<lparr>vision_tower :=
                                          Some (m\<lparr>fm_dtype := BFloat16, fm_requires_grad := False\<rparr>)\<rparr>
                      in (Inr (), self2\<lparr>is_loaded := True\<rparr>, w2)))))"

definition FlorenceVisionTower_init ::
  "('a, 'p, 'x) library \<Rightarrow> string \<Rightarrow> args \<Rightarrow> bool \<Rightarrow> 'x world \<Rightarrow>
     (error + ('a, 'p, 'x) FlorenceVisionTower) \<times> 'x world" where
  "FlorenceVisionTower_init lib vt a delay_load w =
     (let self = \<lparr>is_loaded = False, vision_tower_name = vt,
                   image_processor = None, vision_tower = None, cfg_only = None\<rparr>
      in if \<not> delay_load then constructed (FlorenceVisionTower_load_model lib None self w)
         else if getattr_default (unfreeze_mm_vision_tower a) False
         then constructed (FlorenceVisionTower_load_model lib None self w)
         else constructed (FlorenceVisionTower_load_model lib None self w))"

definition FlorenceVisionTower_dtype :: "('a, 'p, 'x) FlorenceVisionTower \<Rightarrow> error + dtype" where
  "FlorenceVisionTower_dtype self =
     (case vision_tower self of None \<Rightarrow> Inl (no_attribute ''vision_tower'')
      | Some m \<Rightarrow> Inr (fm_dtype m))"

definition FlorenceVisionTower_device :: "('a, 'p, 'x) FlorenceVisionTower \<Rightarrow> error + device" where
  "FlorenceVisionTower_device self =
     (case vision_tower self of None \<Rightarrow> Inl (no_attribute ''vision_tower'')
      | Some m \<Rightarrow> Inr (fm_device m))"

text \<open>The literal of \<^verbatim>\<open>torch.tensor([...])\<close>: three rows of fourteen token ids, on the CPU.\<close>

definition task_ids_literal :: "int list list" where
  "task_ids_literal =
     [[0, 47066, 21700, 11, 4617, 99, 16, 2343, 11, 5, 2274, 4, 2, 1],
      [0, 2264, 16, 5, 2788, 11, 5, 2274, 116, 2, 1, 1, 1, 1],
      [0, 574, 22486, 5, 8720, 11, 5, 2274, 6, 19, 49, 24173, 4, 2]]"

definition torch_tensor2 :: "int list list \<Rightarrow> int tensor" where
  "torch_tensor2 xss =
     \<lparr>t_shape = [length xss, (case xss of [] \<Rightarrow> 0 | xs # _ \<Rightarrow> length xs)],
      t_dtype = Int64, t_device = CPU, t_elems = concat xss\<rparr>"

definition FlorenceVisionTower_forward ::
  "('a, 'p, 'x) FlorenceVisionTower \<Rightarrow> 'a images \<Rightarrow> 'x world \<Rightarrow>
     (error + 'a tensor \<times> 'a tensor) \<times> 'x world" where
  "FlorenceVisionTower_forward self images w =
     (case FlorenceVisionTower_device self of
        Inl e \<Rightarrow> (Inl e, w)
      | Inr d \<Rightarrow>
          (let task_ids = to_device d (torch_tensor2 task_ids_literal)
           in case vision_tower self of
                None \<Rightarrow> (Inl (no_attribute ''vision_tower''), w)
              | Some m \<Rightarrow>
                  (case fm_generate m
                          \<lparr>input_ids = task_ids, pixel_values = images,
                           max_new_tokens = 1, do_sample = False, num_beams = 1\<rparr> w of
                     (Inl e, w1) \<Rightarrow> (Inl e, w1)
                   | (Inr (generated_ids, image_feature, encoder_last_hidden_state), w1) \<Rightarrow>
                       (Inr (image_feature, encoder_last_hidden_state), w1))))"

definition FlorenceVisionTower_config ::
  "('a, 'p, 'x) FlorenceVisionTower \<Rightarrow> error + auto_config" where
  "FlorenceVisionTower_config self =
     (if is_loaded self
      then (case vision_tower self of None \<Rightarrow> Inl (no_attribute ''vision_tower'')
            | Some m \<Rightarrow> Inr (fm_config m))
      else (case cfg_only self of None \<Rightarrow> Inl (no_attribute ''cfg_only'')
            | Some c \<Rightarrow> Inr c))"

definition FlorenceVisionTower_hidden_size :: "('a, 'p, 'x) FlorenceVisionTower \<Rightarrow> error + int" where
  "FlorenceVisionTower_hidden_size self =
     (case FlorenceVisionTower_config self of
        Inl e \<Rightarrow> Inl e
      | Inr c \<Rightarrow> getattr c ''hidden_size'')"

text \<open>
  \<^verbatim>\<open>self.config.image_size // self.config.patch_size\<close>: the left operand is read
  first, then the right one, then the division runs.
\<close>

definition FlorenceVisionTower_num_patches_per_side ::
  "('a, 'p, 'x) FlorenceVisionTower \<Rightarrow> error + int" where
  "FlorenceVisionTower_num_patches_per_side self =
     (case FlorenceVisionTower_config self of
        Inl e \<Rightarrow> Inl e
      | Inr c \<Rightarrow>
          (case getattr c ''image_size'' of
             Inl e \<Rightarrow> Inl e
           | Inr a \<Rightarrow>
               (case FlorenceVisionTower_config self of
                  Inl e \<Rightarrow> Inl e
                | Inr c1 \<Rightarrow>
                    (case getattr c1 ''patch_size'' of
                       Inl e \<Rightarrow> Inl e
                     | Inr b \<Rightarrow> py_floordiv a b))))"

definition FlorenceVisionTower_num_patches ::
  "('a, 'p, 'x) FlorenceVisionTower \<Rightarrow> error + int" where
  "FlorenceVisionTower_num_patches self =
     (case FlorenceVisionTower_config self of
        Inl e \<Rightarrow> Inl e
      | Inr c \<Rightarrow>
          (case getattr c ''image_size'' of
             Inl e \<Rightarrow> Inl e
           | Inr a \<Rightarrow>
               (case FlorenceVisionTower_config self of
                  Inl e \<Rightarrow> Inl e
                | Inr c1 \<Rightarrow>
                    (case getattr c1 ''patch_size'' of
                       Inl e \<Rightarrow> Inl e
                     | Inr b \<Rightarrow>
                         (case py_floordiv a b of
                            Inl e \<Rightarrow> Inl e
                          | Inr n \<Rightarrow> Inr (n ^ 2))))))"

definition FlorenceVisionTower_dummy_feature ::
  "('a::zero, 'p, 'x) FlorenceVisionTower \<Rightarrow> error + 'a tensor" where
  "FlorenceVisionTower_dummy_feature self =
     (case FlorenceVisionTower_hidden_size self of
        Inl e \<Rightarrow> Inl e
      | Inr n \<Rightarrow>
          (case FlorenceVisionTower_device self of
             Inl e \<Rightarrow> (Inl e)
           | Inr d \<Rightarrow>
               (case FlorenceVisionTower_dtype self of
                  Inl e \<Rightarrow> Inl e
                | Inr k \<Rightarrow> zeros n d k)))"

section \<open>Reachable towers\<close>

text \<open>
  A tower a caller can hold: one a constructor returned, and whatever
  \<^verbatim>\<open>load_model\<close> leaves of it, also when the load raised half-way.
  \<^verbatim>\<open>forward\<close> and the accessors assign no attribute.
\<close>

inductive clip_reachable ::
  "('a, 'p, 'x) library \<Rightarrow> ('a, 'p, 'x) CLIPVisionTower \<Rightarrow> bool" for lib where
  clip_constructed:
    "CLIPVisionTower_init lib vt a delay_load w = (Inr self, w1) \<Longrightarrow> clip_reachable lib self"
| clip_load_model:
    "clip_reachable lib self \<Longrightarrow>
     CLIPVisionTower_load_model lib device_map self w = (r, self1, w1) \<Longrightarrow>
     clip_reachable lib self1"

inductive florence_reachable ::
  "('a, 'p, 'x) library \<Rightarrow> ('a, 'p, 'x) FlorenceVisionTower \<Rightarrow> bool" for lib where
  florence_constructed:
    "FlorenceVisionTower_init lib vt a delay_load w = (Inr self, w1) \<Longrightarrow>
     florence_reachable lib self"
| florence_load_model:
    "florence_reachable lib self \<Longrightarrow>
     FlorenceVisionTower_load_model lib device_map self w = (r, self1, w1) \<Longrightarrow>
     florence_reachable lib self1"

section \<open>A small library and small towers to run the definitions on\<close>

text \<open>
  The library state counts the calls of the loaders; the model gives two hidden
  states of one image with three tokens of width two.
\<close>

definition demo_config :: config where
  "demo_config = \<lparr>hidden_size = 2, image_size = 7, patch_size = 2\<rparr>"

text \<open>
  A config laid out as that of a Florence-2 checkpoint: the geometry of the vision
  encoder is nested under \<^verbatim>\<open>vision_config\<close>, and the object itself has none
  of \<^verbatim>\<open>hidden_size\<close>, \<^verbatim>\<open>image_size\<close> and \<^verbatim>\<open>patch_size\<close>.
\<close>

definition demo_florence_config :: auto_config where
  "demo_florence_config = [''vocab_size'' \<mapsto> 51289, ''projection_dim'' \<mapsto> 1024]"

text \<open>A config of another checkpoint class, which has all three.\<close>

definition demo_flat_config :: auto_config where
  "demo_flat_config = [''hidden_size'' \<mapsto> 2, ''image_size'' \<mapsto> 7, ''patch_size'' \<mapsto> 2]"

definition demo_states :: "int tensor \<Rightarrow> int tensor list" where
  "demo_states x =
     [\<lparr>t_shape = [1, 3, 2], t_dtype = t_dtype x, t_device = t_device x,
       t_elems = [0, 1, 2, 3, 4, 5]\<rparr>,
      \<lparr>t_shape = [1, 3, 2], t_dtype = t_dtype x, t_device = t_device x,
       t_elems = [10, 11, 12, 13, 14, 15]\<rparr>]"

definition demo_clip_model :: "(int, nat) clip_model" where
  "demo_clip_model =
     \<lparr>cm_dtype = Float16, cm_device = CUDA 0, cm_config = demo_config,
      cm_requires_grad = True, cm_call = (\<lambda>x w. (Inr (demo_states x), w))\<rparr>"

definition demo_generated :: "int tensor \<times> int tensor \<times> int tensor" where
  "demo_generated =
     (\<lparr>t_shape = [1, 1], t_dtype = Int64, t_device = CUDA 0, t_elems = [2]\<rparr>,
      \<lparr>t_shape = [1, 2, 2], t_dtype = BFloat16, t_device = CUDA 0, t_elems = [1, 2, 3, 4]\<rparr>,
      \<lparr>t_shape = [1, 2, 2], t_dtype = BFloat16, t_device = CUDA 0, t_elems = [5, 6, 7, 8]\<rparr>)"

definition demo_florence_model :: "(int, nat) florence_model" where
  "demo_florence_model =
     \<lparr>fm_dtype = Float32, fm_device = CUDA 0, fm_config = demo_florence_config,
      fm_requires_grad = True,
      fm_generate =
        (\<lambda>a w. if t_shape (input_ids a) = [3, 14] \<and> max_new_tokens a = 1 \<and>
                   \<not> do_sample a \<and> num_beams a = 1
                then (Inr demo_generated, w)
                else (Inl (OtherError ''not the call of forward''), w))\<rparr>"

definition counted :: "'b \<Rightarrow> nat world \<Rightarrow> (error + 'b) \<times> nat world" where
  "counted v w = (Inr v, w\<lparr>ext := Suc (ext w)\<rparr>)"

definition demo_library :: "(int, string, nat) library" where
  "demo_library =
     \<lparr>cast = (\<lambda>k v. v),
      CLIPVisionConfig_from_pretrained = (\<lambda>name. counted demo_config),
      CLIPImageProcessor_from_pretrained = (\<lambda>name. counted (''processor of '' @ name)),
      CLIPVisionModel_from_pretrained = (\<lambda>name device_map. counted demo_clip_model),
      AutoProcessor_from_pretrained = (\<lambda>name. counted (''processor of '' @ name)),
      AutoModelForCausalLM_from_pretrained = (\<lambda>name. counted demo_florence_model)\<rparr>"

definition demo_world :: "nat world" where
  "demo_world = \<lparr>stdout = [], ext = 0\<rparr>"

definition demo_args :: args where
  "demo_args = \<lparr>mm_vision_select_layer = - 2, mm_vision_select_feature = None,
                 unfreeze_mm_vision_tower = None\<rparr>"

definition demo_image :: "int tensor" where
  "demo_image = \<lparr>t_shape = [3, 1, 2], t_dtype = Float32, t_device = CPU,
                  t_elems = [1, 2, 3, 4, 5, 6]\<rparr>"

text \<open>The towers the constructors build from these when nothing is delayed.\<close>

definition demo_clip_tower :: "(int, string, nat) CLIPVisionTower" where
  "demo_clip_tower =
     \<lparr>is_loaded = True, vision_tower_name = ''clip'',
      image_processor = Some ''processor of clip'',
      vision_tower = Some (demo_clip_model\<lparr>cm_requires_grad := False\<rparr>),
      cfg_only = None, select_layer = - 2, select_feature = ''patch''\<rparr>"

definition demo_delayed_tower :: "(int, string, nat) CLIPVisionTower" where
  "demo_delayed_tower =
     \<lparr>is_loaded = False, vision_tower_name = ''clip'',
      image_processor = None, vision_tower = None,
      cfg_only = Some demo_config, select_layer = - 2, select_feature = ''patch''\<rparr>"

definition demo_florence_tower :: "(int, string, nat) FlorenceVisionTower" where
  "demo_florence_tower =
     \<lparr>is_loaded = True, vision_tower_name = ''florence'',
      image_processor = Some ''processor of florence'',
      vision_tower = Some (demo_florence_model\<lparr>fm_dtype := BFloat16, fm_requires_grad := False\<rparr>),
      cfg_only = None\<rparr>"

text \<open>A loaded Florence tower whose model has the flat config.\<close>

definition demo_flat_tower :: "(int, string, nat) FlorenceVisionTower" where
  "demo_flat_tower =
     demo_florence_tower\<lparr>vision_tower :=
       Some (demo_florence_model\<lparr>fm_dtype := BFloat16, fm_config := demo_flat_config,
                                  fm_requires_grad := False\<rparr>)\<rparr>"

text \<open>A CLIP model whose call raises, and the loaded tower that wraps it.\<close>

definition demo_raising_model :: "(int, nat) clip_model" where
  "demo_raising_model =
     demo_clip_model\<lparr>cm_requires_grad := False,
                      cm_call := (\<lambda>x w. (Inl (ValueError ''pixel_values''), w))\<rparr>"

definition demo_raising_tower :: "(int, string, nat) CLIPVisionTower" where
  "demo_raising_tower = demo_clip_tower\<lparr>vision_tower := Some demo_raising_model\<rparr>"

text \<open>The feature the model's first hidden state gives for \<open>demo_image\<close> under \<^verbatim>\<open>patch\<close>.\<close>

definition demo_feature :: "int tensor" where
  "demo_feature = \<lparr>t_shape = [1, 2, 2], t_dtype = Float32, t_device = CUDA 0,
                    t_elems = [2, 3, 4, 5]\<rparr>"

section \<open>What every reachable tower satisfies\<close>

lemma load_model_result_cases:
  "CLIPVisionTower_load_model lib dm self w = (r, self1, w1) \<Longrightarrow>
   (is_loaded self \<and> self1 = self \<and> r = Inr ()) \<or>
   (\<not> is_loaded self \<and> r \<noteq> Inr () \<and> is_loaded self1 = False \<and> cfg_only self1 = cfg_only self
      \<and> (vision_tower self1 = vision_tower self)) \<or>
   (\<not> is_loaded self \<and> r = Inr () \<and> is_loaded self1 \<and> cfg_only self1 = cfg_only self
      \<and> vision_tower self1 \<noteq> None)"
  by (auto simp: CLIPVisionTower_load_model_def Let_def split: if_splits prod.splits sum.splits)

lemma clip_reachable_inv:
  "clip_reachable lib self \<Longrightarrow>
     (is_loaded self \<longrightarrow> vision_tower self \<noteq> None) \<and>
     (\<not> is_loaded self \<longrightarrow> cfg_only self \<noteq> None)"
proof (induction rule: clip_reachable.induct)
  case (clip_constructed vt a delay_load w self w1)
  then show ?case
    by (auto simp: CLIPVisionTower_init_def CLIPVisionTower_load_model_def constructed_def Let_def
        split: if_splits prod.splits sum.splits)
next
  case (clip_load_model self device_map w r self1 w1)
  from load_model_result_cases[OF clip_load_model.hyps(2)] clip_load_model.IH
  show ?case by auto
qed

lemma florence_load_model_result_cases:
  "FlorenceVisionTower_load_model lib dm self w = (r, self1, w1) \<Longrightarrow>
   (is_loaded self \<and> self1 = self \<and> r = Inr ()) \<or>
   (\<not> is_loaded self \<and> r \<noteq> Inr () \<and> is_loaded self1 = False \<and> cfg_only self1 = cfg_only self
      \<and> (vision_tower self1 = vision_tower self)) \<or>
   (\<not> is_loaded self \<and> r = Inr () \<and> is_loaded self1 \<and> cfg_only self1 = cfg_only self
      \<and> vision_tower self1 \<noteq> None)"
  by (auto simp: FlorenceVisionTower_load_model_def Let_def split: if_splits prod.splits sum.splits)

lemma florence_reachable_inv:
  "florence_reachable lib self \<Longrightarrow>
     is_loaded self \<and> vision_tower self \<noteq> None \<and> cfg_only self = None"
proof (induction rule: florence_reachable.induct)
  case (florence_constructed vt a delay_load w self w1)
  then show ?case
    by (auto simp: FlorenceVisionTower_init_def FlorenceVisionTower_load_model_def constructed_def Let_def
        split: if_splits prod.splits sum.splits)
next
  case (florence_load_model self device_map w r self1 w1)
  from florence_load_model_result_cases[OF florence_load_model.hyps(2)] florence_load_model.IH
  show ?case by auto
qed

section \<open>The small towers are the constructors' results\<close>



lemma demo_florence_init:
  "FlorenceVisionTower_init demo_library ''florence'' demo_args True demo_world =
     (Inr demo_florence_tower, \<lparr>stdout = [], ext = 2\<rparr>)"
  by (simp add: FlorenceVisionTower_init_def FlorenceVisionTower_load_model_def constructed_def
      demo_library_def demo_args_def demo_world_def demo_florence_tower_def counted_def
      getattr_default_def Let_def demo_florence_model_def)



lemma demo_florence_reachable: "florence_reachable demo_library demo_florence_tower"
  by (rule florence_constructed [OF demo_florence_init])

section \<open>The forward pass of the CLIP tower\<close>

lemma forward_one_loaded:
  "vision_tower self = Some m \<Longrightarrow>
   CLIPVisionTower_forward_one lib self batch img w =
     (let x = to_device_dtype (cast lib) (cm_device m) (cm_dtype m) img;
          xa = (if batch then unsqueeze0 x else x)
      in case cm_call m xa w of
           (Inl e, wa) \<Rightarrow> (Inl e, wa)
         | (Inr hidden_states, wa) \<Rightarrow>
             (case CLIPVisionTower_feature_select self hidden_states of
                Inl e \<Rightarrow> (Inl e, wa)
              | Inr f \<Rightarrow> (Inr (to_dtype (cast lib) (t_dtype img) f), wa)))"
  by (simp add: CLIPVisionTower_forward_one_def CLIPVisionTower_device_def
      CLIPVisionTower_dtype_def Let_def)

lemma forward_one_dtype:
  "CLIPVisionTower_forward_one lib self batch img w = (Inr f, wa) \<Longrightarrow> t_dtype f = t_dtype img"
  by (auto simp: CLIPVisionTower_forward_one_def CLIPVisionTower_device_def
      CLIPVisionTower_dtype_def Let_def to_dtype_def
      split: option.splits sum.splits prod.splits)

lemma forward_loop_dtypes:
  "CLIPVisionTower_forward_loop lib self imgs acc w = (Inr fs, wa) \<Longrightarrow>
   map t_dtype fs = map t_dtype acc @ map t_dtype imgs"
proof (induction imgs arbitrary: acc w)
  case Nil
  then show ?case by simp
next
  case (Cons img rest)
  from Cons.prems obtain f wb where
    one: "CLIPVisionTower_forward_one lib self True img w = (Inr f, wb)" and
    more: "CLIPVisionTower_forward_loop lib self rest (acc @ [f]) wb = (Inr fs, wa)"
    by (auto split: prod.splits sum.splits)
  from Cons.IH [OF more] forward_one_dtype [OF one] show ?case by simp
qed

lemma feature_select_not_ValueError:
  "select_feature self = ''patch'' \<or> select_feature self = ''cls_patch'' \<Longrightarrow>
   CLIPVisionTower_feature_select self hs \<noteq> Inl (ValueError s)"
  by (auto simp: CLIPVisionTower_feature_select_def py_getitem_def slice_all_from1_def Let_def
      split: sum.splits list.splits if_splits)

text \<open>
  With \<^verbatim>\<open>patch\<close> or \<^verbatim>\<open>cls_patch\<close> a \<^verbatim>\<open>ValueError\<close> that leaves the forward pass
  is not the module's: the call of the model raised it.
\<close>

lemma forward_one_ValueError_origin:
  assumes "select_feature self = ''patch'' \<or> select_feature self = ''cls_patch''"
    and "fst (CLIPVisionTower_forward_one lib self batch img w) = Inl (ValueError s)"
  shows "\<exists>m x. vision_tower self = Some m \<and> fst (cm_call m x w) = Inl (ValueError s)"
proof (cases "vision_tower self")
  case None
  with assms(2) show ?thesis
    by (simp add: CLIPVisionTower_forward_one_def no_attribute_def)
next
  case (Some m)
  let ?x = "to_device_dtype (cast lib) (cm_device m) (cm_dtype m) img"
  let ?xa = "if batch then unsqueeze0 ?x else ?x"
  from assms(2) feature_select_not_ValueError [OF assms(1)]
  have "fst (cm_call m ?xa w) = Inl (ValueError s)"
    unfolding forward_one_loaded [OF Some]
    by (auto simp: Let_def split: prod.splits sum.splits)
  with Some show ?thesis by blast
qed

lemma forward_loop_ValueError_origin:
  assumes "select_feature self = ''patch'' \<or> select_feature self = ''cls_patch''"
  shows "fst (CLIPVisionTower_forward_loop lib self imgs acc w) = Inl (ValueError s) \<Longrightarrow>
         \<exists>m x wx. vision_tower self = Some m \<and> fst (cm_call m x wx) = Inl (ValueError s)"
proof (induction imgs arbitrary: acc w)
  case Nil
  then show ?case by simp
next
  case (Cons img rest)
  show ?case
  proof (cases "CLIPVisionTower_forward_one lib self True img w")
    case (Pair r wb)
    show ?thesis
    proof (cases r)
      case (Inl e)
      with Pair Cons.prems
      have "fst (CLIPVisionTower_forward_one lib self True img w) = Inl (ValueError s)" by simp
      from forward_one_ValueError_origin [OF assms this] show ?thesis by blast
    next
      case (Inr f)
      with Pair Cons.prems
      have "fst (CLIPVisionTower_forward_loop lib self rest (acc @ [f]) wb) = Inl (ValueError s)"
        by simp
      from Cons.IH [OF this] show ?thesis .
    qed
  qed
qed

lemma demo_slice:
  "slice_all_from1 \<lparr>t_shape = [1, 3, 2], t_dtype = k, t_device = d,
                     t_elems = [0, 1, 2, 3, 4, 5 :: int]\<rparr> =
   Inr \<lparr>t_shape = [1, 2, 2], t_dtype = k, t_device = d, t_elems = [2, 3, 4, 5]\<rparr>"
  by (simp add: slice_all_from1_def rows_def Let_def)

lemma demo_forward_one:
  "CLIPVisionTower_forward_one demo_library demo_clip_tower batch (demo_image\<lparr>t_dtype := k\<rparr>) w =
     (Inr (demo_feature\<lparr>t_dtype := k\<rparr>), w)"
proof -
  have vt: "vision_tower demo_clip_tower = Some (demo_clip_model\<lparr>cm_requires_grad := False\<rparr>)"
    by (simp add: demo_clip_tower_def)
  have sel: "CLIPVisionTower_feature_select demo_clip_tower (demo_states x) =
      Inr \<lparr>t_shape = [1, 2, 2], t_dtype = t_dtype x, t_device = t_device x,
           t_elems = [2, 3, 4, 5]\<rparr>" for x
    using demo_slice [of "t_dtype x" "t_device x"]
    by (simp add: CLIPVisionTower_feature_select_def demo_clip_tower_def demo_states_def
        py_getitem_def)
  show ?thesis
    unfolding forward_one_loaded [OF vt]
    by (simp add: demo_clip_model_def demo_library_def sel Let_def to_device_dtype_def
        to_dtype_def unsqueeze0_def demo_image_def demo_feature_def)
qed

lemma demo_forward_batch:
  "CLIPVisionTower_forward demo_library demo_clip_tower (ImageBatch demo_image) demo_world =
     (Inr (PyTuple [PyTensor demo_feature, PyTensor demo_feature]), demo_world)"
  using demo_forward_one [of False Float32 demo_world]
  by (simp add: CLIPVisionTower_forward_def demo_image_def demo_feature_def)

lemma demo_forward_list:
  "CLIPVisionTower_forward demo_library demo_clip_tower
     (ImageList [demo_image, demo_image\<lparr>t_dtype := Float64\<rparr>]) demo_world =
     (Inr (PyTuple [PyList [demo_feature, demo_feature\<lparr>t_dtype := Float64\<rparr>],
                    PyList [demo_feature, demo_feature\<lparr>t_dtype := Float64\<rparr>]]), demo_world)"
  using demo_forward_one [of True Float32 demo_world] demo_forward_one [of True Float64 demo_world]
  by (simp add: CLIPVisionTower_forward_def demo_image_def demo_feature_def)

section \<open>Slicing off index 0 of dimension 1\<close>

lemma concat_uniform_length:
  "\<forall>xs\<in>set xss. length xs = n \<Longrightarrow> length (concat xss) = length xss * n"
  by (induction xss) simp_all

lemma concat_uniform_nth:
  "\<forall>xs\<in>set xss. length xs = n \<Longrightarrow> i < length xss \<Longrightarrow> j < n \<Longrightarrow>
   concat xss ! (i * n + j) = xss ! i ! j"
proof (induction xss arbitrary: i)
  case Nil
  then show ?case by simp
next
  case (Cons x xss)
  show ?case
  proof (cases i)
    case 0
    with Cons.prems show ?thesis by (simp add: nth_append)
  next
    case (Suc i')
    with Cons.prems have "concat xss ! (i' * n + j) = xss ! i' ! j"
      by (intro Cons.IH) auto
    moreover from Cons.prems have "length x = n" by simp
    ultimately show ?thesis using Suc by (simp add: nth_append)
  qed
qed

lemma rows_length: "length (rows b n xs) = b"
  by (simp add: rows_def)

lemma rows_nth:
  "i < b \<Longrightarrow> rows b n xs ! i = take n (drop (i * n) xs)"
  by (simp add: rows_def)

lemma rows_row_length:
  assumes "length xs = b * n" "i < b"
  shows "length (rows b n xs ! i) = n"
proof -
  from assms(2) have "Suc i \<le> b" by simp
  then have "Suc i * n \<le> b * n" by (rule mult_le_mono1)
  then have "n \<le> b * n - i * n" by simp
  with assms show ?thesis by (simp add: rows_nth)
qed

lemma sliced_rows_uniform:
  assumes "length xs = b * (s * d)"
  shows "\<forall>r\<in>set (map (drop d) (rows b (s * d) xs)). length r = (s - 1) * d"
proof
  fix r assume "r \<in> set (map (drop d) (rows b (s * d) xs))"
  then obtain i where i: "i < b" and r: "r = drop d (rows b (s * d) xs ! i)"
    by (auto simp: in_set_conv_nth rows_length)
  from rows_row_length [OF assms i] r show "length r = (s - 1) * d"
    by (simp add: diff_mult_distrib)
qed

lemma sliced_rows_nth:
  assumes len: "length xs = b * (s * d)" and i: "i < b" and j: "j < s - 1" and k: "k < d"
  shows "concat (map (drop d) (rows b (s * d) xs)) ! ((i * (s - 1) + j) * d + k) =
         xs ! ((i * s + (j + 1)) * d + k)"
proof -
  from j have "Suc (Suc j) \<le> s" by simp
  then have "Suc (Suc j) * d \<le> s * d" by (rule mult_le_mono1)
  with k have in_row: "d + (j * d + k) < s * d" by simp
  from j have "Suc j \<le> s - 1" by simp
  then have "Suc j * d \<le> (s - 1) * d" by (rule mult_le_mono1)
  with k have in_sliced: "j * d + k < (s - 1) * d" by simp
  have idx: "(i * (s - 1) + j) * d + k = i * ((s - 1) * d) + (j * d + k)"
    by (simp add: algebra_simps)
  have "concat (map (drop d) (rows b (s * d) xs)) ! (i * ((s - 1) * d) + (j * d + k)) =
        map (drop d) (rows b (s * d) xs) ! i ! (j * d + k)"
    using sliced_rows_uniform [OF len] i in_sliced
    by (intro concat_uniform_nth) (simp_all add: rows_length)
  also have "\<dots> = drop d (take (s * d) (drop (i * (s * d)) xs)) ! (j * d + k)"
    using i by (simp add: rows_length rows_nth)
  also have "\<dots> = take (s * d) (drop (i * (s * d)) xs) ! (d + (j * d + k))"
  proof (rule nth_drop)
    from rows_row_length [OF len i] have "length (take (s * d) (drop (i * (s * d)) xs)) = s * d"
      by (simp only: rows_nth [OF i])
    with in_row show "d \<le> length (take (s * d) (drop (i * (s * d)) xs))" by linarith
  qed
  also have "\<dots> = drop (i * (s * d)) xs ! (d + (j * d + k))"
    using in_row by (rule nth_take)
  also have "\<dots> = xs ! (i * (s * d) + (d + (j * d + k)))"
  proof (rule nth_drop)
    from i have "i \<le> b" by simp
    then have "i * (s * d) \<le> b * (s * d)" by (rule mult_le_mono1)
    with len show "i * (s * d) \<le> length xs" by (simp only:)
  qed
  also have "i * (s * d) + (d + (j * d + k)) = (i * s + (j + 1)) * d + k"
    by (simp add: algebra_simps)
  finally show ?thesis by (simp only: idx)
qed

lemma sliced_rows_length:
  "length xs = b * (s * d) \<Longrightarrow>
   length (concat (map (drop d) (rows b (s * d) xs))) = b * ((s - 1) * d)"
  using concat_uniform_length [OF sliced_rows_uniform, of xs b s d]
  by (simp add: rows_length)

section \<open>The claims\<close>



text \<open>
  C3.  \<^verbatim>\<open>load_model\<close> on a tower whose \<^verbatim>\<open>is_loaded\<close> is true returns normally,
  leaves every attribute as it was (so \<^verbatim>\<open>is_loaded\<close>, the processor and the model),
  prints the notice and touches nothing else of the world, whatever the loaders of
  the library are: no loader runs.  A call that loaded the model is followed by
  such a call.
\<close>

theorem load_model_again_is_noop:
  "(is_loaded c \<longrightarrow>
      CLIPVisionTower_load_model lib dm c w =
        (Inr (), c,
         w\<lparr>stdout := stdout w @
              [vision_tower_name c @ '' is already loaded, `load_model` called again, skipping.'']\<rparr>)) \<and>
   (is_loaded f \<longrightarrow>
      FlorenceVisionTower_load_model lib dm f w =
        (Inr (), f,
         w\<lparr>stdout := stdout w @
              [vision_tower_name f @ '' is already loaded, `load_model` called again, skipping.'']\<rparr>)) \<and>
   (CLIPVisionTower_load_model lib dmb cb wb = (Inr (), ca, wa) \<longrightarrow> is_loaded ca) \<and>
   (FlorenceVisionTower_load_model lib dmb fb vb = (Inr (), fa, va) \<longrightarrow> is_loaded fa)"
proof (intro conjI impI)
  assume "is_loaded c"
  then show "CLIPVisionTower_load_model lib dm c w =
        (Inr (), c,
         w\<lparr>stdout := stdout w @
              [vision_tower_name c @ '' is already loaded, `load_model` called again, skipping.'']\<rparr>)"
    by (simp add: CLIPVisionTower_load_model_def print_def already_loaded_notice_def)
next
  assume "is_loaded f"
  then show "FlorenceVisionTower_load_model lib dm f w =
        (Inr (), f,
         w\<lparr>stdout := stdout w @
              [vision_tower_name f @ '' is already loaded, `load_model` called again, skipping.'']\<rparr>)"
    by (simp add: FlorenceVisionTower_load_model_def print_def already_loaded_notice_def)
next
  assume "CLIPVisionTower_load_model lib dmb cb wb = (Inr (), ca, wa)"
  from load_model_result_cases [OF this] show "is_loaded ca" by auto
next
  assume "FlorenceVisionTower_load_model lib dmb fb vb = (Inr (), fa, va)"
  from florence_load_model_result_cases [OF this] show "is_loaded fa" by auto
qed

lemma demo_clip_load:
  "CLIPVisionTower_load_model demo_library None
     (demo_delayed_tower :: (int, string, nat) CLIPVisionTower) \<lparr>stdout = [], ext = 1\<rparr> =
   (Inr (), demo_clip_tower\<lparr>cfg_only := Some demo_config\<rparr>, \<lparr>stdout = [], ext = 3\<rparr>)"
  by (simp add: CLIPVisionTower_load_model_def demo_library_def demo_delayed_tower_def
      demo_clip_tower_def counted_def Let_def demo_clip_model_def)

lemma demo_florence_load:
  "FlorenceVisionTower_load_model demo_library None
     \<lparr>is_loaded = False, vision_tower_name = ''florence'', image_processor = None,
      vision_tower = None, cfg_only = None\<rparr> demo_world =
   (Inr (), demo_florence_tower, \<lparr>stdout = [], ext = 2\<rparr>)"
  by (simp add: FlorenceVisionTower_load_model_def demo_library_def demo_world_def
      demo_florence_tower_def counted_def Let_def demo_florence_model_def)

theorem load_model_again_is_noop_witness:
  "is_loaded (demo_clip_tower\<lparr>cfg_only := Some demo_config\<rparr>) \<and>
   CLIPVisionTower_load_model demo_library None (demo_clip_tower\<lparr>cfg_only := Some demo_config\<rparr>)
       \<lparr>stdout = [], ext = 2\<rparr> =
     (Inr (), demo_clip_tower\<lparr>cfg_only := Some demo_config\<rparr>,
      \<lparr>stdout = [''clip is already loaded, `load_model` called again, skipping.''], ext = 2\<rparr>) \<and>
   is_loaded demo_florence_tower \<and>
   FlorenceVisionTower_load_model demo_library None demo_florence_tower \<lparr>stdout = [], ext = 2\<rparr> =
     (Inr (), demo_florence_tower,
      \<lparr>stdout = [''florence is already loaded, `load_model` called again, skipping.''], ext = 2\<rparr>)"
  using load_model_again_is_noop
    [where c = "demo_clip_tower\<lparr>cfg_only := Some demo_config\<rparr>" and lib = demo_library
       and dm = None and w = "\<lparr>stdout = [], ext = 2\<rparr>" and f = demo_florence_tower
       and dmb = None and cb = demo_delayed_tower and wb = "\<lparr>stdout = [], ext = 1\<rparr>"
       and ca = "demo_clip_tower\<lparr>cfg_only := Some demo_config\<rparr>"
       and wa = "\<lparr>stdout = [], ext = 3\<rparr>"
       and fb = "\<lparr>is_loaded = False, vision_tower_name = ''florence'', image_processor = None,
                   vision_tower = None, cfg_only = None\<rparr>"
       and vb = demo_world and fa = demo_florence_tower and va = "\<lparr>stdout = [], ext = 2\<rparr>"]
    demo_clip_load demo_florence_load
  by (simp add: demo_clip_tower_def demo_florence_tower_def)

subsection \<open>The accessors of a loaded tower\<close>

lemma clip_num_patches_of_loaded_tower:
  assumes "clip_reachable lib c" "is_loaded c"
  shows "\<exists>m. vision_tower c = Some m \<and>
        CLIPVisionTower_num_patches_per_side c =
          py_floordiv (image_size (cm_config m)) (patch_size (cm_config m)) \<and>
        CLIPVisionTower_num_patches c =
          (case CLIPVisionTower_num_patches_per_side c of Inl e \<Rightarrow> Inl e | Inr n \<Rightarrow> Inr (n ^ 2)) \<and>
        (patch_size (cm_config m) \<noteq> 0 \<longrightarrow>
           CLIPVisionTower_num_patches_per_side c =
             Inr (image_size (cm_config m) div patch_size (cm_config m)) \<and>
           CLIPVisionTower_num_patches c =
             Inr ((image_size (cm_config m) div patch_size (cm_config m)) ^ 2))"
proof -
  from assms clip_reachable_inv [of lib c] obtain m where m: "vision_tower c = Some m" by auto
  from assms m have cfg: "CLIPVisionTower_config c = Inr (cm_config m)"
    by (simp add: CLIPVisionTower_config_def)
  show ?thesis
    using m cfg
    by (simp add: CLIPVisionTower_num_patches_per_side_def CLIPVisionTower_num_patches_def
        py_floordiv_def)
qed

lemma florence_num_patches_with_attributes:
  assumes "florence_reachable lib f"
  shows "\<exists>m. vision_tower f = Some m \<and>
        (\<forall>a b. fm_config m ''image_size'' = Some a \<and> fm_config m ''patch_size'' = Some b \<longrightarrow>
           FlorenceVisionTower_num_patches_per_side f = py_floordiv a b \<and>
           FlorenceVisionTower_num_patches f =
             (case py_floordiv a b of Inl e \<Rightarrow> Inl e | Inr n \<Rightarrow> Inr (n ^ 2))) \<and>
        (fm_config m ''image_size'' = None \<longrightarrow>
           FlorenceVisionTower_num_patches_per_side f = Inl (no_attribute ''image_size'') \<and>
           FlorenceVisionTower_num_patches f = Inl (no_attribute ''image_size'')) \<and>
        (\<forall>a. fm_config m ''image_size'' = Some a \<and> fm_config m ''patch_size'' = None \<longrightarrow>
           FlorenceVisionTower_num_patches_per_side f = Inl (no_attribute ''patch_size'') \<and>
           FlorenceVisionTower_num_patches f = Inl (no_attribute ''patch_size''))"
proof -
  from assms florence_reachable_inv [of lib f] obtain m where
    m: "vision_tower f = Some m" and l: "is_loaded f" by auto
  from l m have cfg: "FlorenceVisionTower_config f = Inr (fm_config m)"
    by (simp add: FlorenceVisionTower_config_def)
  show ?thesis
    using m cfg
    by (auto simp: FlorenceVisionTower_num_patches_per_side_def FlorenceVisionTower_num_patches_def
        getattr_def)
qed

lemma clip_dummy_feature_of_loaded_tower:
  assumes "clip_reachable lib c" "is_loaded c"
  shows "\<exists>m. vision_tower c = Some m \<and>
        (0 \<le> hidden_size (cm_config m) \<longrightarrow>
           CLIPVisionTower_dummy_feature c =
             Inr \<lparr>t_shape = [1, nat (hidden_size (cm_config m))], t_dtype = cm_dtype m,
                  t_device = cm_device m,
                  t_elems = replicate (nat (hidden_size (cm_config m))) (0::'a::zero)\<rparr>)"
proof -
  from assms clip_reachable_inv [of lib c] obtain m where m: "vision_tower c = Some m" by auto
  with assms show ?thesis
    by (simp add: CLIPVisionTower_dummy_feature_def CLIPVisionTower_hidden_size_def
        CLIPVisionTower_config_def CLIPVisionTower_device_def CLIPVisionTower_dtype_def zeros_def)
qed

lemma florence_dummy_feature_with_attribute:
  assumes "florence_reachable lib f"
  shows "\<exists>m. vision_tower f = Some m \<and>
        (\<forall>n. fm_config m ''hidden_size'' = Some n \<and> 0 \<le> n \<longrightarrow>
           FlorenceVisionTower_dummy_feature f =
             Inr \<lparr>t_shape = [1, nat n], t_dtype = fm_dtype m, t_device = fm_device m,
                  t_elems = replicate (nat n) (0::'a::zero)\<rparr>) \<and>
        (fm_config m ''hidden_size'' = None \<longrightarrow>
           FlorenceVisionTower_dummy_feature f = Inl (no_attribute ''hidden_size''))"
proof -
  from assms florence_reachable_inv [of lib f] obtain m where
    m: "vision_tower f = Some m" and l: "is_loaded f" by auto
  then show ?thesis
    by (simp add: FlorenceVisionTower_dummy_feature_def FlorenceVisionTower_hidden_size_def
        FlorenceVisionTower_config_def FlorenceVisionTower_device_def FlorenceVisionTower_dtype_def
        zeros_def getattr_def)
qed

lemma demo_accessors:
  "CLIPVisionTower_num_patches_per_side demo_clip_tower = Inr 3"
  "CLIPVisionTower_num_patches demo_clip_tower = Inr 9"
  "CLIPVisionTower_dummy_feature demo_clip_tower =
     Inr \<lparr>t_shape = [1, 2], t_dtype = Float16, t_device = CUDA 0, t_elems = [0, 0]\<rparr>"
  "FlorenceVisionTower_num_patches_per_side demo_flat_tower = Inr 3"
  "FlorenceVisionTower_num_patches demo_flat_tower = Inr 9"
  "FlorenceVisionTower_dummy_feature demo_flat_tower =
     Inr \<lparr>t_shape = [1, 2], t_dtype = BFloat16, t_device = CUDA 0, t_elems = [0, 0]\<rparr>"
  by (simp_all add: demo_clip_tower_def demo_flat_tower_def demo_florence_tower_def
      demo_clip_model_def demo_florence_model_def demo_config_def demo_flat_config_def
      py_floordiv_def getattr_def zeros_def numeral_2_eq_2
      CLIPVisionTower_num_patches_per_side_def CLIPVisionTower_num_patches_def
      CLIPVisionTower_config_def CLIPVisionTower_dummy_feature_def CLIPVisionTower_hidden_size_def
      CLIPVisionTower_device_def CLIPVisionTower_dtype_def
      FlorenceVisionTower_num_patches_per_side_def FlorenceVisionTower_num_patches_def
      FlorenceVisionTower_config_def FlorenceVisionTower_dummy_feature_def
      FlorenceVisionTower_hidden_size_def FlorenceVisionTower_device_def
      FlorenceVisionTower_dtype_def)

text \<open>
  C6.  The claim holds of the CLIP tower (\<open>clip_num_patches_of_loaded_tower\<close>) and
  fails on the Florence tower: the tower the constructor returns for a checkpoint
  whose config has no \<^verbatim>\<open>image_size\<close> is loaded, and both
  \<^verbatim>\<open>num_patches_per_side\<close> and \<^verbatim>\<open>num_patches\<close> raise \<^verbatim>\<open>AttributeError\<close> on it
  instead of returning the patch geometry.
\<close>

theorem florence_num_patches_raises:
  "FlorenceVisionTower_init demo_library ''florence'' demo_args False demo_world =
     (Inr demo_florence_tower, \<lparr>stdout = [], ext = 2\<rparr>) \<and>
   is_loaded demo_florence_tower \<and>
   FlorenceVisionTower_config demo_florence_tower = Inr demo_florence_config \<and>
   FlorenceVisionTower_num_patches_per_side demo_florence_tower =
     Inl (AttributeError ''object has no attribute image_size'') \<and>
   FlorenceVisionTower_num_patches demo_florence_tower =
     Inl (AttributeError ''object has no attribute image_size'')"
  by (simp add: FlorenceVisionTower_init_def FlorenceVisionTower_load_model_def constructed_def
      demo_library_def demo_args_def demo_world_def demo_florence_tower_def counted_def
      getattr_default_def Let_def demo_florence_model_def demo_florence_config_def
      FlorenceVisionTower_num_patches_per_side_def FlorenceVisionTower_num_patches_def
      FlorenceVisionTower_config_def getattr_def no_attribute_def)

text \<open>
  C9.  The claim holds of the CLIP tower (\<open>clip_dummy_feature_of_loaded_tower\<close>)
  and fails on the Florence tower: on the loaded tower of a checkpoint whose config
  has no \<^verbatim>\<open>hidden_size\<close>, \<^verbatim>\<open>dummy_feature\<close> raises \<^verbatim>\<open>AttributeError\<close> instead of
  returning the zero tensor.
\<close>

theorem florence_dummy_feature_raises:
  "FlorenceVisionTower_init demo_library ''florence'' demo_args False demo_world =
     (Inr demo_florence_tower, \<lparr>stdout = [], ext = 2\<rparr>) \<and>
   is_loaded demo_florence_tower \<and>
   FlorenceVisionTower_config demo_florence_tower = Inr demo_florence_config \<and>
   FlorenceVisionTower_hidden_size demo_florence_tower =
     Inl (AttributeError ''object has no attribute hidden_size'') \<and>
   (FlorenceVisionTower_dummy_feature demo_florence_tower :: error + int tensor) =
     Inl (AttributeError ''object has no attribute hidden_size'')"
  by (simp add: FlorenceVisionTower_init_def FlorenceVisionTower_load_model_def constructed_def
      demo_library_def demo_args_def demo_world_def demo_florence_tower_def counted_def
      getattr_default_def Let_def demo_florence_model_def demo_florence_config_def
      FlorenceVisionTower_dummy_feature_def FlorenceVisionTower_hidden_size_def
      FlorenceVisionTower_config_def getattr_def no_attribute_def)

text \<open>
  C10.  Whatever \<^verbatim>\<open>delay_load\<close> and \<^verbatim>\<open>unfreeze_mm_vision_tower\<close> are, the
  constructor of \<^verbatim>\<open>FlorenceVisionTower\<close> is \<^verbatim>\<open>load_model\<close> on the fresh tower,
  which runs both loaders; a tower it returns has \<^verbatim>\<open>is_loaded\<close> true and no
  \<^verbatim>\<open>cfg_only\<close>, and so has every tower reachable from it.
\<close>

theorem florence_init_always_loads:
  "FlorenceVisionTower_init lib vt a delay_load w =
     (case AutoProcessor_from_pretrained lib vt w of
        (Inl e, wa) \<Rightarrow> (Inl e, wa)
      | (Inr p, wa) \<Rightarrow>
          (case AutoModelForCausalLM_from_pretrained lib vt wa of
             (Inl e, wb) \<Rightarrow> (Inl e, wb)
           | (Inr m, wb) \<Rightarrow>
               (Inr \<lparr>is_loaded = True, vision_tower_name = vt, image_processor = Some p,
                     vision_tower = Some (m\<lparr>fm_dtype := BFloat16, fm_requires_grad := False\<rparr>),
                     cfg_only = None\<rparr>, wb))) \<and>
   (FlorenceVisionTower_init lib vt a delay_load w = (Inr self, wc) \<longrightarrow>
      is_loaded self \<and> cfg_only self = None) \<and>
   (florence_reachable lib f \<longrightarrow> is_loaded f \<and> cfg_only f = None)"
proof (intro conjI impI)
  show "FlorenceVisionTower_init lib vt a delay_load w =
     (case AutoProcessor_from_pretrained lib vt w of
        (Inl e, wa) \<Rightarrow> (Inl e, wa)
      | (Inr p, wa) \<Rightarrow>
          (case AutoModelForCausalLM_from_pretrained lib vt wa of
             (Inl e, wb) \<Rightarrow> (Inl e, wb)
           | (Inr m, wb) \<Rightarrow>
               (Inr \<lparr>is_loaded = True, vision_tower_name = vt, image_processor = Some p,
                     vision_tower = Some (m\<lparr>fm_dtype := BFloat16, fm_requires_grad := False\<rparr>),
                     cfg_only = None\<rparr>, wb)))"
    by (simp add: FlorenceVisionTower_init_def FlorenceVisionTower_load_model_def constructed_def
        Let_def split: prod.splits sum.splits)
next
  assume "FlorenceVisionTower_init lib vt a delay_load w = (Inr self, wc)"
  from florence_reachable_inv [OF florence_constructed [OF this]]
  show "is_loaded self" and "cfg_only self = None" by simp_all
next
  assume "florence_reachable lib f"
  from florence_reachable_inv [OF this]
  show "is_loaded f" and "cfg_only f = None" by simp_all
qed

theorem florence_init_always_loads_witness:
  "FlorenceVisionTower_init demo_library ''florence'' demo_args True demo_world =
     (Inr demo_florence_tower, \<lparr>stdout = [], ext = 2\<rparr>) \<and>
   florence_reachable demo_library demo_florence_tower \<and>
   is_loaded demo_florence_tower \<and> cfg_only demo_florence_tower = None"
  using florence_init_always_loads
    [where lib = demo_library and vt = "''florence''" and a = demo_args and delay_load = True
       and w = demo_world and self = demo_florence_tower and wc = "\<lparr>stdout = [], ext = 2\<rparr>"
       and f = demo_florence_tower]
    demo_florence_init demo_florence_reachable
  by simp

text \<open>
  C8.  On every Florence tower a caller can hold, \<^verbatim>\<open>forward\<close> is one call of the
  loaded model's \<^verbatim>\<open>generate\<close>: the prompt is the same three rows of fourteen token
  ids (moved to the model's device) whatever the images are, with
  \<^verbatim>\<open>max_new_tokens=1\<close>, \<^verbatim>\<open>do_sample=False\<close> and \<^verbatim>\<open>num_beams=1\<close>; of the triple
  that comes back the generated ids are dropped and the pair (image feature,
  encoder last hidden state) is returned; a raise of \<^verbatim>\<open>generate\<close> is passed on.
\<close>

theorem florence_forward_fixed_prompt:
  "florence_reachable lib f \<Longrightarrow>
   \<exists>m. vision_tower f = Some m \<and>
     FlorenceVisionTower_forward f images w =
       (case fm_generate m
               \<lparr>input_ids =
                  \<lparr>t_shape = [3, 14], t_dtype = Int64, t_device = fm_device m,
                   t_elems =
                     [0, 47066, 21700, 11, 4617, 99, 16, 2343, 11, 5, 2274, 4, 2, 1,
                      0, 2264, 16, 5, 2788, 11, 5, 2274, 116, 2, 1, 1, 1, 1,
                      0, 574, 22486, 5, 8720, 11, 5, 2274, 6, 19, 49, 24173, 4, 2]\<rparr>,
                pixel_values = images, max_new_tokens = 1, do_sample = False,
                num_beams = 1\<rparr> w of
          (Inl e, wa) \<Rightarrow> (Inl e, wa)
        | (Inr (generated_ids, image_feature, encoder_last_hidden_state), wa) \<Rightarrow>
            (Inr (image_feature, encoder_last_hidden_state), wa))"
proof -
  assume "florence_reachable lib f"
  from florence_reachable_inv [OF this] obtain m where m: "vision_tower f = Some m" by auto
  have ids: "to_device (fm_device m) (torch_tensor2 task_ids_literal) =
      \<lparr>t_shape = [3, 14], t_dtype = Int64, t_device = fm_device m,
       t_elems =
         [0, 47066, 21700, 11, 4617, 99, 16, 2343, 11, 5, 2274, 4, 2, 1,
          0, 2264, 16, 5, 2788, 11, 5, 2274, 116, 2, 1, 1, 1, 1,
          0, 574, 22486, 5, 8720, 11, 5, 2274, 6, 19, 49, 24173, 4, 2]\<rparr>"
    by (simp add: to_device_def torch_tensor2_def task_ids_literal_def)
  show ?thesis
    using m by (simp add: FlorenceVisionTower_forward_def FlorenceVisionTower_device_def Let_def ids)
qed

theorem florence_forward_fixed_prompt_witness:
  "florence_reachable demo_library demo_florence_tower \<and>
   FlorenceVisionTower_forward demo_florence_tower (ImageBatch demo_image) demo_world =
     (Inr (\<lparr>t_shape = [1, 2, 2], t_dtype = BFloat16, t_device = CUDA 0, t_elems = [1, 2, 3, 4]\<rparr>,
           \<lparr>t_shape = [1, 2, 2], t_dtype = BFloat16, t_device = CUDA 0, t_elems = [5, 6, 7, 8]\<rparr>),
      demo_world)"
  using florence_forward_fixed_prompt [OF demo_florence_reachable, of "ImageBatch demo_image" demo_world]
    demo_florence_reachable
  by (simp add: demo_florence_tower_def demo_florence_model_def demo_generated_def)

text \<open>C1 as stated fails: a batched tensor comes back as a tuple.\<close>

theorem forward_returns_tuple_counterexample:
  "fst (CLIPVisionTower_forward demo_library demo_clip_tower (ImageBatch demo_image) demo_world) =
     Inr (PyTuple [PyTensor demo_feature, PyTensor demo_feature]) \<and>
   \<not> is_PyTensor (PyTuple [PyTensor demo_feature, PyTensor demo_feature]) \<and>
   fst (CLIPVisionTower_forward demo_library demo_clip_tower
          (ImageList [demo_image, demo_image\<lparr>t_dtype := Float64\<rparr>]) demo_world) =
     Inr (PyTuple [PyList [demo_feature, demo_feature\<lparr>t_dtype := Float64\<rparr>],
                   PyList [demo_feature, demo_feature\<lparr>t_dtype := Float64\<rparr>]]) \<and>
   \<not> is_PyList (PyTuple [PyList [demo_feature, demo_feature\<lparr>t_dtype := Float64\<rparr>],
                         PyList [demo_feature, demo_feature\<lparr>t_dtype := Float64\<rparr>]])"
  by (simp add: demo_forward_batch demo_forward_list)

text \<open>
  C1, amended.  When \<^verbatim>\<open>forward\<close> returns, it returns a tuple of two components
  that are the same value: one feature tensor for a batched tensor, for a list of
  images a list of feature tensors of the same length.  For a batched tensor on a
  tower that holds a model it returns when the model and the selection do.
\<close>

theorem forward_returns_pair:
  "(CLIPVisionTower_forward lib self images w = (Inr v, wa) \<longrightarrow>
      (case images of
         ImageBatch t \<Rightarrow> \<exists>f. v = PyTuple [PyTensor f, PyTensor f]
       | ImageList imgs \<Rightarrow>
           \<exists>fs. length fs = length imgs \<and> v = PyTuple [PyList fs, PyList fs])) \<and>
   (vision_tower self = Some m \<and>
    cm_call m (to_device_dtype (cast lib) (cm_device m) (cm_dtype m) t) w = (Inr hs, wb) \<and>
    CLIPVisionTower_feature_select self hs = Inr h \<longrightarrow>
      CLIPVisionTower_forward lib self (ImageBatch t) w =
        (Inr (PyTuple [PyTensor (to_dtype (cast lib) (t_dtype t) h),
                       PyTensor (to_dtype (cast lib) (t_dtype t) h)]), wb))"
proof (intro conjI impI)
  assume r: "CLIPVisionTower_forward lib self images w = (Inr v, wa)"
  show "case images of
         ImageBatch t \<Rightarrow> \<exists>f. v = PyTuple [PyTensor f, PyTensor f]
       | ImageList imgs \<Rightarrow>
           \<exists>fs. length fs = length imgs \<and> v = PyTuple [PyList fs, PyList fs]"
  proof (cases images)
    case (ImageBatch t)
    with r show ?thesis
      by (auto simp: CLIPVisionTower_forward_def split: prod.splits sum.splits)
  next
    case (ImageList imgs)
    with r obtain fs where
      loop: "CLIPVisionTower_forward_loop lib self imgs [] w = (Inr fs, wa)" and
      v: "v = PyTuple [PyList fs, PyList fs]"
      by (auto simp: CLIPVisionTower_forward_def split: prod.splits sum.splits)
    from forward_loop_dtypes [OF loop] have "length (map t_dtype fs) = length (map t_dtype imgs)"
      by simp
    then have "length fs = length imgs" by simp
    with v ImageList show ?thesis by simp
  qed
next
  assume "vision_tower self = Some m \<and>
    cm_call m (to_device_dtype (cast lib) (cm_device m) (cm_dtype m) t) w = (Inr hs, wb) \<and>
    CLIPVisionTower_feature_select self hs = Inr h"
  then show "CLIPVisionTower_forward lib self (ImageBatch t) w =
        (Inr (PyTuple [PyTensor (to_dtype (cast lib) (t_dtype t) h),
                       PyTensor (to_dtype (cast lib) (t_dtype t) h)]), wb)"
    by (simp add: CLIPVisionTower_forward_def forward_one_loaded Let_def)
qed

theorem forward_returns_pair_witness:
  "CLIPVisionTower_forward demo_library demo_clip_tower
     (ImageList [demo_image, demo_image\<lparr>t_dtype := Float64\<rparr>]) demo_world =
     (Inr (PyTuple [PyList [demo_feature, demo_feature\<lparr>t_dtype := Float64\<rparr>],
                    PyList [demo_feature, demo_feature\<lparr>t_dtype := Float64\<rparr>]]), demo_world) \<and>
   length [demo_feature, demo_feature\<lparr>t_dtype := Float64\<rparr>] =
     length [demo_image, demo_image\<lparr>t_dtype := Float64\<rparr>] \<and>
   CLIPVisionTower_forward demo_library demo_clip_tower (ImageBatch demo_image) demo_world =
     (Inr (PyTuple [PyTensor demo_feature, PyTensor demo_feature]), demo_world)"
  using forward_returns_pair
    [where lib = demo_library and self = demo_clip_tower
       and images = "ImageList [demo_image, demo_image\<lparr>t_dtype := Float64\<rparr>]"
       and w = demo_world
       and v = "PyTuple [PyList [demo_feature, demo_feature\<lparr>t_dtype := Float64\<rparr>],
                         PyList [demo_feature, demo_feature\<lparr>t_dtype := Float64\<rparr>]]"
       and wa = demo_world
       and m = "demo_clip_model\<lparr>cm_requires_grad := False\<rparr>" and t = demo_image
       and hs = "demo_states (to_device_dtype (\<lambda>k v. v) (CUDA 0) Float16 demo_image)"
       and wb = demo_world
       and h = "\<lparr>t_shape = [1, 2, 2], t_dtype = Float16, t_device = CUDA 0,
                  t_elems = [2, 3, 4, 5]\<rparr>"]
    demo_forward_list demo_forward_batch
  by simp

text \<open>
  C7.  Every feature tensor \<^verbatim>\<open>forward\<close> returns has the dtype of the image it was
  computed from (the batched tensor, or the image at the same position of the
  list), while the model is called on a tensor of the model's own dtype.
\<close>

theorem forward_keeps_input_dtype:
  "(CLIPVisionTower_forward lib self images w = (Inr v, wa) \<longrightarrow>
      (case images of
         ImageBatch t \<Rightarrow> \<exists>f. v = PyTuple [PyTensor f, PyTensor f] \<and> t_dtype f = t_dtype t
       | ImageList imgs \<Rightarrow>
           \<exists>fs. v = PyTuple [PyList fs, PyList fs] \<and> length fs = length imgs \<and>
                (\<forall>i<length imgs. t_dtype (fs ! i) = t_dtype (imgs ! i)))) \<and>
   (vision_tower self = Some m \<longrightarrow>
      (\<exists>x. t_dtype x = cm_dtype m \<and>
        CLIPVisionTower_forward_one lib self batch img w =
          (case cm_call m x w of
             (Inl e, wb) \<Rightarrow> (Inl e, wb)
           | (Inr hs, wb) \<Rightarrow>
               (case CLIPVisionTower_feature_select self hs of
                  Inl e \<Rightarrow> (Inl e, wb)
                | Inr f \<Rightarrow> (Inr (to_dtype (cast lib) (t_dtype img) f), wb)))))"
proof (intro conjI impI)
  assume r: "CLIPVisionTower_forward lib self images w = (Inr v, wa)"
  show "case images of
         ImageBatch t \<Rightarrow> \<exists>f. v = PyTuple [PyTensor f, PyTensor f] \<and> t_dtype f = t_dtype t
       | ImageList imgs \<Rightarrow>
           \<exists>fs. v = PyTuple [PyList fs, PyList fs] \<and> length fs = length imgs \<and>
                (\<forall>i<length imgs. t_dtype (fs ! i) = t_dtype (imgs ! i))"
  proof (cases images)
    case (ImageBatch t)
    with r obtain f where
      one: "CLIPVisionTower_forward_one lib self False t w = (Inr f, wa)" and
      v: "v = PyTuple [PyTensor f, PyTensor f]"
      by (auto simp: CLIPVisionTower_forward_def split: prod.splits sum.splits)
    from forward_one_dtype [OF one] v ImageBatch show ?thesis by simp
  next
    case (ImageList imgs)
    with r obtain fs where
      loop: "CLIPVisionTower_forward_loop lib self imgs [] w = (Inr fs, wa)" and
      v: "v = PyTuple [PyList fs, PyList fs]"
      by (auto simp: CLIPVisionTower_forward_def split: prod.splits sum.splits)
    from forward_loop_dtypes [OF loop] have eq: "map t_dtype fs = map t_dtype imgs" by simp
    then have len: "length fs = length imgs" by (rule map_eq_imp_length_eq)
    have "t_dtype (fs ! i) = t_dtype (imgs ! i)" if "i < length imgs" for i
    proof -
      from that len have "map t_dtype fs ! i = t_dtype (fs ! i)" by simp
      moreover from that have "map t_dtype imgs ! i = t_dtype (imgs ! i)" by simp
      ultimately show ?thesis using eq by simp
    qed
    with v len ImageList show ?thesis by simp
  qed
next
  assume m: "vision_tower self = Some m"
  let ?x = "to_device_dtype (cast lib) (cm_device m) (cm_dtype m) img"
  let ?xa = "if batch then unsqueeze0 ?x else ?x"
  have "t_dtype ?xa = cm_dtype m" by (simp add: to_device_dtype_def unsqueeze0_def)
  moreover have "CLIPVisionTower_forward_one lib self batch img w =
          (case cm_call m ?xa w of
             (Inl e, wb) \<Rightarrow> (Inl e, wb)
           | (Inr hs, wb) \<Rightarrow>
               (case CLIPVisionTower_feature_select self hs of
                  Inl e \<Rightarrow> (Inl e, wb)
                | Inr f \<Rightarrow> (Inr (to_dtype (cast lib) (t_dtype img) f), wb)))"
    unfolding forward_one_loaded [OF m] by (simp add: Let_def)
  ultimately show "\<exists>x. t_dtype x = cm_dtype m \<and>
        CLIPVisionTower_forward_one lib self batch img w =
          (case cm_call m x w of
             (Inl e, wb) \<Rightarrow> (Inl e, wb)
           | (Inr hs, wb) \<Rightarrow>
               (case CLIPVisionTower_feature_select self hs of
                  Inl e \<Rightarrow> (Inl e, wb)
                | Inr f \<Rightarrow> (Inr (to_dtype (cast lib) (t_dtype img) f), wb)))"
    by blast
qed

theorem forward_keeps_input_dtype_witness:
  "CLIPVisionTower_forward demo_library demo_clip_tower
     (ImageList [demo_image, demo_image\<lparr>t_dtype := Float64\<rparr>]) demo_world =
     (Inr (PyTuple [PyList [demo_feature, demo_feature\<lparr>t_dtype := Float64\<rparr>],
                    PyList [demo_feature, demo_feature\<lparr>t_dtype := Float64\<rparr>]]), demo_world) \<and>
   map t_dtype [demo_feature, demo_feature\<lparr>t_dtype := Float64\<rparr>] = [Float32, Float64] \<and>
   map t_dtype [demo_image, demo_image\<lparr>t_dtype := Float64\<rparr>] = [Float32, Float64] \<and>
   vision_tower demo_clip_tower = Some (demo_clip_model\<lparr>cm_requires_grad := False\<rparr>) \<and>
   cm_dtype (demo_clip_model\<lparr>cm_requires_grad := False\<rparr>) = Float16"
  using forward_keeps_input_dtype
    [where lib = demo_library and self = demo_clip_tower
       and images = "ImageList [demo_image, demo_image\<lparr>t_dtype := Float64\<rparr>]"
       and w = demo_world
       and v = "PyTuple [PyList [demo_feature, demo_feature\<lparr>t_dtype := Float64\<rparr>],
                         PyList [demo_feature, demo_feature\<lparr>t_dtype := Float64\<rparr>]]"
       and wa = demo_world
       and m = "demo_clip_model\<lparr>cm_requires_grad := False\<rparr>" and batch = True
       and img = demo_image]
    demo_forward_list
  by (simp add: demo_feature_def demo_image_def demo_clip_tower_def demo_clip_model_def)

text \<open>
  C5 as stated fails: with a \<^verbatim>\<open>select_feature\<close> that is neither \<^verbatim>\<open>patch\<close> nor
  \<^verbatim>\<open>cls_patch\<close>, \<^verbatim>\<open>forward\<close> of an empty list returns and raises nothing.
\<close>

theorem forward_bad_select_feature_counterexample:
  "select_feature (demo_clip_tower\<lparr>select_feature := ''bogus''\<rparr>) \<noteq> ''patch'' \<and>
   select_feature (demo_clip_tower\<lparr>select_feature := ''bogus''\<rparr>) \<noteq> ''cls_patch'' \<and>
   CLIPVisionTower_forward demo_library (demo_clip_tower\<lparr>select_feature := ''bogus''\<rparr>)
       (ImageList []) demo_world =
     (Inr (PyTuple [PyList [], PyList []]), demo_world)"
  by (simp add: CLIPVisionTower_forward_def)

text \<open>
  C5, amended.  With a \<^verbatim>\<open>select_feature\<close> that is neither \<^verbatim>\<open>patch\<close> nor
  \<^verbatim>\<open>cls_patch\<close>, the selection raises \<^verbatim>\<open>ValueError\<close> with a message that ends in
  that value as soon as the hidden state at \<^verbatim>\<open>select_layer\<close> exists; so
  \<^verbatim>\<open>forward\<close> raises it for a batched tensor, and for a list at its first image,
  once the model has run on it.  With \<^verbatim>\<open>patch\<close> or \<^verbatim>\<open>cls_patch\<close> no such
  error is raised: the selection raises no \<^verbatim>\<open>ValueError\<close>, and a
  \<^verbatim>\<open>ValueError\<close> that leaves \<^verbatim>\<open>forward\<close> is one the call of the model raised.
\<close>

theorem forward_bad_select_feature_raises:
  "(select_feature self \<noteq> ''patch'' \<and> select_feature self \<noteq> ''cls_patch'' \<and>
    py_getitem hs (select_layer self) = Inr h \<longrightarrow>
      CLIPVisionTower_feature_select self hs =
        Inl (ValueError (''Unexpected select feature: '' @ select_feature self)) \<and>
      (vision_tower self = Some m \<and>
       cm_call m (to_device_dtype (cast lib) (cm_device m) (cm_dtype m) t) w = (Inr hs, wa) \<longrightarrow>
         CLIPVisionTower_forward lib self (ImageBatch t) w =
           (Inl (ValueError (''Unexpected select feature: '' @ select_feature self)), wa)) \<and>
      (vision_tower self = Some m \<and>
       cm_call m (unsqueeze0 (to_device_dtype (cast lib) (cm_device m) (cm_dtype m) t)) w =
         (Inr hs, wa) \<longrightarrow>
         CLIPVisionTower_forward lib self (ImageList (t # rest)) w =
           (Inl (ValueError (''Unexpected select feature: '' @ select_feature self)), wa))) \<and>
   (select_feature self = ''patch'' \<or> select_feature self = ''cls_patch'' \<longrightarrow>
      CLIPVisionTower_feature_select self hs \<noteq> Inl (ValueError s) \<and>
      (fst (CLIPVisionTower_forward lib self images w) = Inl (ValueError s) \<longrightarrow>
         (\<exists>ma x wx. vision_tower self = Some ma \<and>
            fst (cm_call ma x wx) = Inl (ValueError s))))"
proof (intro conjI impI)
  assume a: "select_feature self \<noteq> ''patch'' \<and> select_feature self \<noteq> ''cls_patch'' \<and>
    py_getitem hs (select_layer self) = Inr h"
  then show sel: "CLIPVisionTower_feature_select self hs =
        Inl (ValueError (''Unexpected select feature: '' @ select_feature self))"
    by (simp add: CLIPVisionTower_feature_select_def)
  {
    assume "vision_tower self = Some m \<and>
       cm_call m (to_device_dtype (cast lib) (cm_device m) (cm_dtype m) t) w = (Inr hs, wa)"
    with sel show "CLIPVisionTower_forward lib self (ImageBatch t) w =
           (Inl (ValueError (''Unexpected select feature: '' @ select_feature self)), wa)"
      by (simp add: CLIPVisionTower_forward_def forward_one_loaded Let_def)
  }
  {
    assume "vision_tower self = Some m \<and>
       cm_call m (unsqueeze0 (to_device_dtype (cast lib) (cm_device m) (cm_dtype m) t)) w =
         (Inr hs, wa)"
    with sel show "CLIPVisionTower_forward lib self (ImageList (t # rest)) w =
           (Inl (ValueError (''Unexpected select feature: '' @ select_feature self)), wa)"
      by (simp add: CLIPVisionTower_forward_def forward_one_loaded Let_def)
  }
next
  assume ok: "select_feature self = ''patch'' \<or> select_feature self = ''cls_patch''"
  from feature_select_not_ValueError [OF ok]
  show "CLIPVisionTower_feature_select self hs \<noteq> Inl (ValueError s)" .
  assume raised: "fst (CLIPVisionTower_forward lib self images w) = Inl (ValueError s)"
  show "\<exists>ma x wx. vision_tower self = Some ma \<and> fst (cm_call ma x wx) = Inl (ValueError s)"
  proof (cases images)
    case (ImageBatch t)
    with raised have "fst (CLIPVisionTower_forward_one lib self False t w) = Inl (ValueError s)"
      by (auto simp: CLIPVisionTower_forward_def split: prod.splits sum.splits)
    from forward_one_ValueError_origin [OF ok this] show ?thesis by blast
  next
    case (ImageList imgs)
    with raised have "fst (CLIPVisionTower_forward_loop lib self imgs [] w) = Inl (ValueError s)"
      by (auto simp: CLIPVisionTower_forward_def split: prod.splits sum.splits)
    from forward_loop_ValueError_origin [OF ok this] show ?thesis .
  qed
qed

lemma demo_bogus_call:
  "cm_call (demo_clip_model\<lparr>cm_requires_grad := False\<rparr>) x demo_world =
     (Inr (demo_states x), demo_world)"
  by (simp add: demo_clip_model_def)

lemma demo_raising_forward:
  "CLIPVisionTower_forward demo_library demo_raising_tower (ImageBatch demo_image) demo_world =
     (Inl (ValueError ''pixel_values''), demo_world)"
  by (simp add: CLIPVisionTower_forward_def CLIPVisionTower_forward_one_def
      CLIPVisionTower_device_def CLIPVisionTower_dtype_def Let_def demo_raising_tower_def
      demo_raising_model_def demo_clip_tower_def demo_clip_model_def)

theorem forward_bad_select_feature_raises_witness:
  "select_feature (demo_clip_tower\<lparr>select_feature := ''bogus''\<rparr>) \<noteq> ''patch'' \<and>
   select_feature (demo_clip_tower\<lparr>select_feature := ''bogus''\<rparr>) \<noteq> ''cls_patch'' \<and>
   CLIPVisionTower_forward demo_library (demo_clip_tower\<lparr>select_feature := ''bogus''\<rparr>)
       (ImageBatch demo_image) demo_world =
     (Inl (ValueError ''Unexpected select feature: bogus''), demo_world) \<and>
   select_feature demo_raising_tower = ''patch'' \<and>
   fst (CLIPVisionTower_forward demo_library demo_raising_tower (ImageBatch demo_image)
          demo_world) = Inl (ValueError ''pixel_values'') \<and>
   (\<exists>ma x wx. vision_tower demo_raising_tower = Some ma \<and>
      fst (cm_call ma x wx) = Inl (ValueError ''pixel_values''))"
  using forward_bad_select_feature_raises
    [where self = "demo_clip_tower\<lparr>select_feature := ''bogus''\<rparr>"
       and hs = "demo_states (to_device_dtype (\<lambda>k v. v) (CUDA 0) Float16 demo_image)"
       and h = "hd (demo_states (to_device_dtype (\<lambda>k v. v) (CUDA 0) Float16 demo_image))"
       and m = "demo_clip_model\<lparr>cm_requires_grad := False\<rparr>" and lib = demo_library
       and t = demo_image and w = demo_world and wa = demo_world]
    forward_bad_select_feature_raises
    [where self = demo_raising_tower and lib = demo_library and images = "ImageBatch demo_image"
       and w = demo_world and s = "''pixel_values''"]
    demo_bogus_call demo_raising_forward
  by (simp add: demo_clip_tower_def demo_library_def demo_clip_model_def py_getitem_def
      demo_states_def demo_raising_tower_def)

text \<open>
  C4.  Under \<^verbatim>\<open>cls_patch\<close> the selection is the hidden state at \<^verbatim>\<open>select_layer\<close>
  as it is: the entry of the tuple at that index, counted from the end when the
  index is negative; an index outside the tuple raises.  Under \<^verbatim>\<open>patch\<close> it is
  that tensor with index 0 of dimension 1 (the first token) removed from every
  batch entry: one position fewer in dimension 1, every remaining token the one
  that stood one position later, dtype and device kept.
\<close>

theorem patch_drops_first_token:
  "(0 \<le> select_layer self \<and> select_layer self < int (length hs) \<longrightarrow>
      CLIPVisionTower_feature_select (self\<lparr>select_feature := ''cls_patch''\<rparr>) hs =
        Inr (hs ! nat (select_layer self))) \<and>
   (select_layer self < 0 \<and> - int (length hs) \<le> select_layer self \<longrightarrow>
      CLIPVisionTower_feature_select (self\<lparr>select_feature := ''cls_patch''\<rparr>) hs =
        Inr (hs ! nat (int (length hs) + select_layer self))) \<and>
   (int (length hs) \<le> select_layer self \<or> select_layer self < - int (length hs) \<longrightarrow>
      CLIPVisionTower_feature_select (self\<lparr>select_feature := ''cls_patch''\<rparr>) hs =
        Inl (IndexError ''tuple index out of range'') \<and>
      CLIPVisionTower_feature_select (self\<lparr>select_feature := ''patch''\<rparr>) hs =
        Inl (IndexError ''tuple index out of range'')) \<and>
   CLIPVisionTower_feature_select (self\<lparr>select_feature := ''patch''\<rparr>) hs =
     (case CLIPVisionTower_feature_select (self\<lparr>select_feature := ''cls_patch''\<rparr>) hs of
        Inl e \<Rightarrow> Inl e
      | Inr h \<Rightarrow> slice_all_from1 h) \<and>
   (CLIPVisionTower_feature_select (self\<lparr>select_feature := ''cls_patch''\<rparr>) hs = Inr h \<and>
    t_shape h = b # n # rest \<and> length (t_elems h) = b * (n * prod_list rest) \<longrightarrow>
      (\<exists>p. CLIPVisionTower_feature_select (self\<lparr>select_feature := ''patch''\<rparr>) hs = Inr p \<and>
           t_shape p = b # (n - 1) # rest \<and>
           t_dtype p = t_dtype h \<and> t_device p = t_device h \<and>
           length (t_elems p) = b * ((n - 1) * prod_list rest) \<and>
           (\<forall>i<b. \<forall>j<n - 1. \<forall>k<prod_list rest.
              t_elems p ! ((i * (n - 1) + j) * prod_list rest + k) =
              t_elems h ! ((i * n + (j + 1)) * prod_list rest + k))))"
proof (intro conjI impI)
  assume "0 \<le> select_layer self \<and> select_layer self < int (length hs)"
  then show "CLIPVisionTower_feature_select (self\<lparr>select_feature := ''cls_patch''\<rparr>) hs =
        Inr (hs ! nat (select_layer self))"
    by (simp add: CLIPVisionTower_feature_select_def py_getitem_def)
next
  assume "select_layer self < 0 \<and> - int (length hs) \<le> select_layer self"
  then show "CLIPVisionTower_feature_select (self\<lparr>select_feature := ''cls_patch''\<rparr>) hs =
        Inr (hs ! nat (int (length hs) + select_layer self))"
    by (simp add: CLIPVisionTower_feature_select_def py_getitem_def)
next
  assume out: "int (length hs) \<le> select_layer self \<or> select_layer self < - int (length hs)"
  then show "CLIPVisionTower_feature_select (self\<lparr>select_feature := ''cls_patch''\<rparr>) hs =
        Inl (IndexError ''tuple index out of range'')"
    by (auto simp: CLIPVisionTower_feature_select_def py_getitem_def)
  from out show "CLIPVisionTower_feature_select (self\<lparr>select_feature := ''patch''\<rparr>) hs =
        Inl (IndexError ''tuple index out of range'')"
    by (auto simp: CLIPVisionTower_feature_select_def py_getitem_def)
next
  show patch: "CLIPVisionTower_feature_select (self\<lparr>select_feature := ''patch''\<rparr>) hs =
     (case CLIPVisionTower_feature_select (self\<lparr>select_feature := ''cls_patch''\<rparr>) hs of
        Inl e \<Rightarrow> Inl e
      | Inr h \<Rightarrow> slice_all_from1 h)"
    by (simp add: CLIPVisionTower_feature_select_def split: sum.splits)
  assume a: "CLIPVisionTower_feature_select (self\<lparr>select_feature := ''cls_patch''\<rparr>) hs = Inr h \<and>
    t_shape h = b # n # rest \<and> length (t_elems h) = b * (n * prod_list rest)"
  let ?d = "prod_list rest"
  let ?p = "h\<lparr>t_shape := b # (n - 1) # rest,
              t_elems := concat (map (drop ?d) (rows b (n * ?d) (t_elems h)))\<rparr>"
  from a have len: "length (t_elems h) = b * (n * ?d)" by simp
  from a have sl: "slice_all_from1 h = Inr ?p"
    by (simp add: slice_all_from1_def Let_def)
  with a patch have 1: "CLIPVisionTower_feature_select (self\<lparr>select_feature := ''patch''\<rparr>) hs = Inr ?p"
    by simp
  have 2: "t_shape ?p = b # (n - 1) # rest" "t_dtype ?p = t_dtype h" "t_device ?p = t_device h"
    by simp_all
  have 3: "length (t_elems ?p) = b * ((n - 1) * ?d)"
    using sliced_rows_length [OF len] by simp
  have 4: "\<forall>i<b. \<forall>j<n - 1. \<forall>k<?d.
              t_elems ?p ! ((i * (n - 1) + j) * ?d + k) =
              t_elems h ! ((i * n + (j + 1)) * ?d + k)"
    using sliced_rows_nth [OF len] by simp
  from 1 2 3 4
  show "\<exists>p. CLIPVisionTower_feature_select (self\<lparr>select_feature := ''patch''\<rparr>) hs = Inr p \<and>
           t_shape p = b # (n - 1) # rest \<and>
           t_dtype p = t_dtype h \<and> t_device p = t_device h \<and>
           length (t_elems p) = b * ((n - 1) * prod_list rest) \<and>
           (\<forall>i<b. \<forall>j<n - 1. \<forall>k<prod_list rest.
              t_elems p ! ((i * (n - 1) + j) * prod_list rest + k) =
              t_elems h ! ((i * n + (j + 1)) * prod_list rest + k))"
    by blast
qed

lemma demo_select_last:
  "CLIPVisionTower_feature_select
     (demo_clip_tower\<lparr>select_layer := - 1, select_feature := ''patch''\<rparr>) (demo_states demo_image) =
   Inr \<lparr>t_shape = [1, 2, 2], t_dtype = Float32, t_device = CPU, t_elems = [12, 13, 14, 15]\<rparr>"
  by (simp add: CLIPVisionTower_feature_select_def demo_clip_tower_def demo_states_def
      py_getitem_def demo_image_def slice_all_from1_def rows_def Let_def)

theorem patch_drops_first_token_witness:
  "demo_states demo_image ! nat (int (length (demo_states demo_image)) + - 1) =
     \<lparr>t_shape = [1, 3, 2], t_dtype = Float32, t_device = CPU,
      t_elems = [10, 11, 12, 13, 14, 15]\<rparr> \<and>
   CLIPVisionTower_feature_select
     (demo_clip_tower\<lparr>select_layer := - 1, select_feature := ''cls_patch''\<rparr>)
     (demo_states demo_image) =
     Inr \<lparr>t_shape = [1, 3, 2], t_dtype = Float32, t_device = CPU,
          t_elems = [10, 11, 12, 13, 14, 15]\<rparr> \<and>
   CLIPVisionTower_feature_select
     (demo_clip_tower\<lparr>select_layer := 0, select_feature := ''cls_patch''\<rparr>)
     (demo_states demo_image) =
     Inr \<lparr>t_shape = [1, 3, 2], t_dtype = Float32, t_device = CPU,
          t_elems = [0, 1, 2, 3, 4, 5]\<rparr> \<and>
   CLIPVisionTower_feature_select
     (demo_clip_tower\<lparr>select_layer := 2, select_feature := ''cls_patch''\<rparr>)
     (demo_states demo_image) = Inl (IndexError ''tuple index out of range'') \<and>
   length [10, 11, 12, 13, 14, 15 :: int] = 1 * (3 * prod_list [2]) \<and>
   CLIPVisionTower_feature_select
     (demo_clip_tower\<lparr>select_layer := - 1, select_feature := ''patch''\<rparr>)
     (demo_states demo_image) =
     Inr \<lparr>t_shape = [1, 2, 2], t_dtype = Float32, t_device = CPU,
          t_elems = [12, 13, 14, 15]\<rparr> \<and>
   (0::nat) < 1 \<and> (1::nat) < 3 - 1 \<and> (1::nat) < prod_list [2] \<and>
   [12, 13, 14, 15 :: int] ! ((0 * (3 - 1) + 1) * prod_list [2] + 1) =
   [10, 11, 12, 13, 14, 15] ! ((0 * 3 + (1 + 1)) * prod_list [2] + 1)"
  using patch_drops_first_token
    [where self = "demo_clip_tower\<lparr>select_layer := - 1\<rparr>" and hs = "demo_states demo_image"
       and h = "\<lparr>t_shape = [1, 3, 2], t_dtype = Float32, t_device = CPU,
                  t_elems = [10, 11, 12, 13, 14, 15]\<rparr>"
       and b = 1 and n = 3 and rest = "[2]"]
    patch_drops_first_token
    [where self = "demo_clip_tower\<lparr>select_layer := 0\<rparr>" and hs = "demo_states demo_image"]
    patch_drops_first_token
    [where self = "demo_clip_tower\<lparr>select_layer := 2\<rparr>" and hs = "demo_states demo_image"]
    demo_select_last
  by (simp add: demo_clip_tower_def demo_states_def demo_image_def)

end
